theory Spec2Isabelle
  imports Complex_Main "HOL-Library.Word"
begin

section \<open>Integer conventions of the C++ source\<close>

text \<open>
  The source mixes three integer types: \<^verbatim>\<open>int\<close> (32-bit signed), \<^verbatim>\<open>unsigned int\<close>
  (32-bit, the element type of \<^verbatim>\<open>IndexList\<close> and of every OpenGL handle) and
  \<^verbatim>\<open>size_t\<close> (unsigned, 64 bits wide as on every 64-bit target; the type of every
  \<^verbatim>\<open>std::vector::size()\<close>). An \<^verbatim>\<open>int\<close> is modelled as a HOL \<open>int\<close>; the
  conversions the compiler inserts are written out.
\<close>

type_synonym GLuint = "32 word"

text \<open>Conversion \<^verbatim>\<open>int \<rightarrow> unsigned int\<close>: the residue modulo \<open>2^32\<close>.\<close>

definition to_unsigned :: "int \<Rightarrow> GLuint" where
  "to_unsigned v = word_of_int v"

text \<open>Conversion \<^verbatim>\<open>int \<rightarrow> size_t\<close> and \<^verbatim>\<open>size_t\<close> addition: residues modulo \<open>2^64\<close>.\<close>

definition SIZE_MOD :: nat where
  "SIZE_MOD = 2 ^ 64"

definition to_size_t :: "int \<Rightarrow> nat" where
  "to_size_t v = nat (v mod int SIZE_MOD)"

definition size_add :: "nat \<Rightarrow> nat \<Rightarrow> nat" where
  "size_add a b = (a + b) mod SIZE_MOD"

text \<open>C++ integer division truncates towards zero; division by zero has no result.\<close>

definition c_div :: "int \<Rightarrow> int \<Rightarrow> int" where
  "c_div a b = sgn a * sgn b * (\<bar>a\<bar> div \<bar>b\<bar>)"

text \<open>Narrowing of an unsigned value to \<^verbatim>\<open>int\<close>: the two's complement reading of its low 32 bits.\<close>

definition to_int :: "nat \<Rightarrow> int" where
  "to_int n = (int n + 2 ^ 31) mod 2 ^ 32 - 2 ^ 31"

text \<open>The largest \<^verbatim>\<open>int\<close>; an \<^verbatim>\<open>int\<close> addition beyond it is undefined behaviour.\<close>

definition INT_MAX :: int where
  "INT_MAX = 2 ^ 31 - 1"

section \<open>Exceptions (Exceptions.hpp) and undefined behaviour\<close>

text \<open>
  \<^verbatim>\<open>BufferException\<close> derives from \<^verbatim>\<open>GrafException\<close>, which derives from
  \<^verbatim>\<open>std::runtime_error\<close>. The constructor argument is kept; \<open>what\<close> is the text that
  \<^verbatim>\<open>e.what()\<close> returns. \<open>StdException\<close> stands for an exception of the standard library
  that is not a \<^verbatim>\<open>GrafException\<close>.
\<close>

datatype exn = GrafException string | BufferException string | StdException string

fun what :: "exn \<Rightarrow> string" where
  "what (GrafException message) = message"
| "what (BufferException message) = ''Buffer Error: '' @ message"
| "what (StdException message) = message"

fun is_GrafException :: "exn \<Rightarrow> bool" where
  "is_GrafException (GrafException message) = True"
| "is_GrafException (BufferException message) = True"
| "is_GrafException (StdException message) = False"

text \<open>
  Operations the C++ standard leaves undefined are outcomes of their own: no \<^verbatim>\<open>catch\<close>
  clause intercepts them.
\<close>

datatype ub =
  OutOfBoundsRead | OutOfBoundsWrite | NullDereference | DivisionByZero | SignedOverflow

datatype failure = Exception exn | Undefined ub

text \<open>
  A \<^verbatim>\<open>void\<close> function that mutates its reference arguments returns \<open>(r, s)\<close>: \<open>r = None\<close>
  for a normal return, \<open>Some f\<close> for the failure raised, and in both cases the state \<open>s\<close>
  of the mutated arguments at that moment.
\<close>

definition and_then :: "failure option \<times> 's \<Rightarrow> ('s \<Rightarrow> failure option \<times> 's) \<Rightarrow> failure option \<times> 's" where
  "and_then r f = (case r of (None, s) \<Rightarrow> f s | (Some e, s) \<Rightarrow> (Some e, s))"

section \<open>Vertex data (VertexTypes.hpp)\<close>

text \<open>
  \<^verbatim>\<open>float\<close> values are modelled by the real numbers they denote; the helpers below only
  copy them, and every literal of the factories (0, 0.5, 1) is exactly representable.
\<close>

datatype vec3 = vec3 real real real
datatype vec2 = vec2 real real

record Vertex =
  position :: vec3
  texture :: vec2

type_synonym VertexList = "Vertex list"
type_synonym IndexList = "GLuint list"

text \<open>A value-initialised \<^verbatim>\<open>Vertex\<close>, as \<^verbatim>\<open>VertexList vertices(n)\<close> creates \<open>n\<close> of.\<close>

definition Vertex0 :: Vertex where
  "Vertex0 = \<lparr>position = vec3 0 0 0, texture = vec2 0 0\<rparr>"

text \<open>\<^verbatim>\<open>sizeof(Vertex)\<close>: five 4-byte floats; \<^verbatim>\<open>sizeof(unsigned int)\<close>.\<close>

definition sizeof_Vertex :: nat where
  "sizeof_Vertex = 20"

definition sizeof_unsigned_int :: nat where
  "sizeof_unsigned_int = 4"

section \<open>ShapeFactory::GenerateFaceIndices (ShapeFactory.cpp)\<close>

text \<open>
  The \<^verbatim>\<open>for (int i = 0; i < faceCount; i++)\<close> loop, with the six \<^verbatim>\<open>push_back\<close> calls of
  its body. Each pushed \<^verbatim>\<open>int\<close> expression is converted to \<^verbatim>\<open>unsigned int\<close>. The sums
  are formed in HOL's integers: where the \<^verbatim>\<open>int\<close> arithmetic of the source wraps around,
  the converted value is the same residue modulo \<open>2^32\<close>.
\<close>

function GenerateFaceIndices_loop :: "int \<Rightarrow> int \<Rightarrow> int \<Rightarrow> IndexList \<Rightarrow> IndexList" where
  "GenerateFaceIndices_loop i faceCount offset indices =
     (if i < faceCount
      then GenerateFaceIndices_loop (i + 1) faceCount offset
             (indices @ [to_unsigned (offset + i * 4),
                         to_unsigned (offset + i * 4 + 2),
                         to_unsigned (offset + i * 4 + 1),
                         to_unsigned (offset + i * 4),
                         to_unsigned (offset + i * 4 + 3),
                         to_unsigned (offset + i * 4 + 2)])
      else indices)"
  by pat_completeness auto
termination
  by (relation "measure (\<lambda>(i, faceCount, offset, indices). nat (faceCount - i))") auto

definition GenerateFaceIndices :: "IndexList \<Rightarrow> int \<Rightarrow> int \<Rightarrow> IndexList" where
  "GenerateFaceIndices indices faceCount offset =
     GenerateFaceIndices_loop 0 faceCount offset indices"

section \<open>ShapeFactory helpers (ShapeFactory.cpp)\<close>

definition QUAD_TEXTURE_COORDS :: "(real \<times> real) list" where
  "QUAD_TEXTURE_COORDS = [(0, 1), (1, 1), (1, 0), (0, 0)]"

definition TRIANGLE_TEXTURE_COORDS :: "(real \<times> real) list" where
  "TRIANGLE_TEXTURE_COORDS = [(1 / 2, 1), (0, 0), (1, 0)]"

definition SetTextureCoords :: "Vertex \<Rightarrow> real \<Rightarrow> real \<Rightarrow> Vertex" where
  "SetTextureCoords vertex s t = vertex\<lparr>texture := vec2 s t\<rparr>"

text \<open>
  \<^verbatim>\<open>vertices[offset + i]\<close>: \<^verbatim>\<open>offset\<close> is an \<^verbatim>\<open>int\<close>, \<^verbatim>\<open>i\<close> a \<^verbatim>\<open>size_t\<close>, so the
  subscript is computed in \<^verbatim>\<open>size_t\<close>. \<^verbatim>\<open>operator[]\<close> does not check it: a subscript
  outside the vector is undefined behaviour.
\<close>

definition subscript :: "int \<Rightarrow> nat \<Rightarrow> nat" where
  "subscript offset i = size_add (to_size_t offset) i"

definition TEXTURE_RANGE_MESSAGE :: string where
  "TEXTURE_RANGE_MESSAGE = ''Texture coords size exceeds vertex list size''"

definition INDEX_RANGE_MESSAGE :: string where
  "INDEX_RANGE_MESSAGE = ''Vertex indices exceed vertex list size''"

function AssignTextureCoords_loop ::
  "nat \<Rightarrow> VertexList \<Rightarrow> int \<Rightarrow> (real \<times> real) list \<Rightarrow> failure option \<times> VertexList" where
  "AssignTextureCoords_loop i vertices offset coords =
     (if i < length coords
      then (if subscript offset i < length vertices
            then AssignTextureCoords_loop (i + 1)
                   (vertices[subscript offset i :=
                      SetTextureCoords (vertices ! subscript offset i)
                        (fst (coords ! i)) (snd (coords ! i))])
                   offset coords
            else (Some (Undefined OutOfBoundsWrite), vertices))
      else (None, vertices))"
  by pat_completeness auto
termination
  by (relation "measure (\<lambda>(i, vertices, offset, coords). length coords - i)") auto

definition AssignTextureCoords ::
  "VertexList \<Rightarrow> int \<Rightarrow> (real \<times> real) list \<Rightarrow> failure option \<times> VertexList" where
  "AssignTextureCoords vertices offset coords =
     (if size_add (to_size_t offset) (length coords) > length vertices
      then (Some (Exception (GrafException TEXTURE_RANGE_MESSAGE)), vertices)
      else AssignTextureCoords_loop 0 vertices offset coords)"

text \<open>
  \<^verbatim>\<open>positions\<close> is a raw array parameter; the model passes the array as a list and
  a selector outside it is an out-of-bounds read.
\<close>

function DefineFace_loop ::
  "nat \<Rightarrow> VertexList \<Rightarrow> int \<Rightarrow> vec3 list \<Rightarrow> int list \<Rightarrow> failure option \<times> VertexList" where
  "DefineFace_loop i vertices offset positions vertexIndices =
     (if i < length vertexIndices
      then (if \<not> (0 \<le> vertexIndices ! i \<and> vertexIndices ! i < int (length positions))
            then (Some (Undefined OutOfBoundsRead), vertices)
            else if subscript offset i < length vertices
            then DefineFace_loop (i + 1)
                   (vertices[subscript offset i :=
                      (vertices ! subscript offset i)
                        \<lparr>position := positions ! nat (vertexIndices ! i)\<rparr>])
                   offset positions vertexIndices
            else (Some (Undefined OutOfBoundsWrite), vertices))
      else (None, vertices))"
  by pat_completeness auto
termination
  by (relation "measure (\<lambda>(i, vertices, offset, positions, vertexIndices).
                           length vertexIndices - i)") auto

definition DefineFace ::
  "VertexList \<Rightarrow> int \<Rightarrow> vec3 list \<Rightarrow> int list \<Rightarrow> (real \<times> real) list
     \<Rightarrow> failure option \<times> VertexList" where
  "DefineFace vertices offset positions vertexIndices textureCoords =
     (if size_add (to_size_t offset) (length vertexIndices) > length vertices
      then (Some (Exception (GrafException INDEX_RANGE_MESSAGE)), vertices)
      else and_then (DefineFace_loop 0 vertices offset positions vertexIndices)
             (\<lambda>vertices. AssignTextureCoords vertices offset textureCoords))"

text \<open>The error kind \<open>OutOfRange\<close> of the specification: either of the two range exceptions.\<close>

definition OutOfRange :: "failure option \<Rightarrow> bool" where
  "OutOfRange r \<longleftrightarrow>
     r = Some (Exception (GrafException TEXTURE_RANGE_MESSAGE)) \<or>
     r = Some (Exception (GrafException INDEX_RANGE_MESSAGE))"

section \<open>The concrete factories: vertex and index data\<close>

text \<open>
  Every \<^verbatim>\<open>createShape\<close> builds a vertex list and an index list and ends with
  \<^verbatim>\<open>return createVAOFromData(vertices, indices)\<close>. The functions of this section are the
  part before that call: they return its two arguments, or the failure raised before it.
\<close>

text \<open>
  The assignments \<^verbatim>\<open>vertices[i].position = p\<close> and \<^verbatim>\<open>SetTextureCoords(vertices[i], s, t)\<close>,
  for a subscript \<open>i\<close> inside the list.
\<close>

definition put_position :: "VertexList \<Rightarrow> nat \<Rightarrow> vec3 \<Rightarrow> VertexList" where
  "put_position vertices i p = vertices[i := (vertices ! i)\<lparr>position := p\<rparr>]"

definition put_texture :: "VertexList \<Rightarrow> nat \<Rightarrow> real \<Rightarrow> real \<Rightarrow> VertexList" where
  "put_texture vertices i s t = vertices[i := SetTextureCoords (vertices ! i) s t]"

subsection \<open>SquareFactory.cpp\<close>

definition SquareFactory_geometry :: "failure + (VertexList \<times> IndexList)" where
  "SquareFactory_geometry =
     (let vertices = replicate 6 Vertex0;
          indices = [0, 1, 2, 3, 4, 5];
          vertices = put_position vertices 0 (vec3 (- (1 / 2)) (1 / 2) (- 1));
          vertices = put_texture vertices 0 0 1;
          vertices = put_position vertices 1 (vec3 (1 / 2) (1 / 2) (- 1));
          vertices = put_texture vertices 1 1 1;
          vertices = put_position vertices 2 (vec3 (1 / 2) (- (1 / 2)) (- 1));
          vertices = put_texture vertices 2 1 0;
          vertices = put_position vertices 3 (vec3 (1 / 2) (- (1 / 2)) (- 1));
          vertices = put_texture vertices 3 1 0;
          vertices = put_position vertices 4 (vec3 (- (1 / 2)) (- (1 / 2)) (- 1));
          vertices = put_texture vertices 4 0 0;
          vertices = put_position vertices 5 (vec3 (- (1 / 2)) (1 / 2) (- 1));
          vertices = put_texture vertices 5 0 1
      in Inr (vertices, indices))"

subsection \<open>CubeFactory.cpp\<close>

definition finish_geometry ::
  "failure option \<times> VertexList \<Rightarrow> IndexList \<Rightarrow> failure + (VertexList \<times> IndexList)" where
  "finish_geometry r indices =
     (case r of (Some f, vertices) \<Rightarrow> Inl f | (None, vertices) \<Rightarrow> Inr (vertices, indices))"

definition CubeFactory_geometry :: "failure + (VertexList \<times> IndexList)" where
  "CubeFactory_geometry =
     (let positions =
            [vec3 (- (1 / 2)) (1 / 2) (1 / 2), vec3 (1 / 2) (1 / 2) (1 / 2),
             vec3 (1 / 2) (- (1 / 2)) (1 / 2), vec3 (- (1 / 2)) (- (1 / 2)) (1 / 2),
             vec3 (- (1 / 2)) (1 / 2) (- (1 / 2)), vec3 (1 / 2) (1 / 2) (- (1 / 2)),
             vec3 (1 / 2) (- (1 / 2)) (- (1 / 2)), vec3 (- (1 / 2)) (- (1 / 2)) (- (1 / 2))];
          vertices = replicate 24 Vertex0;
          indices = []
      in finish_geometry
           (and_then (and_then (and_then (and_then (and_then
              (DefineFace vertices 0 positions [0, 1, 2, 3] QUAD_TEXTURE_COORDS)
              (\<lambda>vertices. DefineFace vertices 4 positions [1, 5, 6, 2] QUAD_TEXTURE_COORDS))
              (\<lambda>vertices. DefineFace vertices 8 positions [4, 5, 1, 0] QUAD_TEXTURE_COORDS))
              (\<lambda>vertices. DefineFace vertices 12 positions [4, 0, 3, 7] QUAD_TEXTURE_COORDS))
              (\<lambda>vertices. DefineFace vertices 16 positions [5, 4, 7, 6] QUAD_TEXTURE_COORDS))
              (\<lambda>vertices. DefineFace vertices 20 positions [3, 2, 6, 7] QUAD_TEXTURE_COORDS))
           (GenerateFaceIndices indices 6 0))"

subsection \<open>PyramidFactory.cpp\<close>

definition PyramidFactory_geometry :: "failure + (VertexList \<times> IndexList)" where
  "PyramidFactory_geometry =
     (let positions =
            [vec3 0 (1 / 2) 0,
             vec3 (- (1 / 2)) (- (1 / 2)) (1 / 2),
             vec3 (1 / 2) (- (1 / 2)) (1 / 2),
             vec3 (1 / 2) (- (1 / 2)) (- (1 / 2)),
             vec3 (- (1 / 2)) (- (1 / 2)) (- (1 / 2))];
          vertices = replicate 16 Vertex0;
          indices = [0, 1, 2, 3, 4, 5, 6, 7, 8, 9, 10, 11, 12, 13, 14, 12, 14, 15]
      in finish_geometry
           (and_then (and_then (and_then (and_then
              (DefineFace vertices 0 positions [0, 1, 2] TRIANGLE_TEXTURE_COORDS)
              (\<lambda>vertices. DefineFace vertices 3 positions [0, 2, 3] TRIANGLE_TEXTURE_COORDS))
              (\<lambda>vertices. DefineFace vertices 6 positions [0, 3, 4] TRIANGLE_TEXTURE_COORDS))
              (\<lambda>vertices. DefineFace vertices 9 positions [0, 4, 1] TRIANGLE_TEXTURE_COORDS))
              (\<lambda>vertices. DefineFace vertices 12 positions [1, 2, 3, 4] QUAD_TEXTURE_COORDS))
           indices)"

subsection \<open>FrustumFactory.cpp\<close>

definition FrustumFactory_geometry :: "failure + (VertexList \<times> IndexList)" where
  "FrustumFactory_geometry =
     (let positions =
            [vec3 (- (1 / 2)) (1 / 2) (1 / 2), vec3 (1 / 2) (1 / 2) (1 / 2),
             vec3 1 (- (1 / 2)) 1, vec3 (- 1) (- (1 / 2)) 1,
             vec3 (- (1 / 2)) (1 / 2) (- (1 / 2)), vec3 (1 / 2) (1 / 2) (- (1 / 2)),
             vec3 1 (- (1 / 2)) (- 1), vec3 (- 1) (- (1 / 2)) (- 1)];
          vertices = replicate 24 Vertex0;
          indices = []
      in finish_geometry
           (and_then (and_then (and_then (and_then (and_then
              (DefineFace vertices 0 positions [0, 1, 2, 3] QUAD_TEXTURE_COORDS)
              (\<lambda>vertices. DefineFace vertices 4 positions [1, 5, 6, 2] QUAD_TEXTURE_COORDS))
              (\<lambda>vertices. DefineFace vertices 8 positions [5, 4, 7, 6] QUAD_TEXTURE_COORDS))
              (\<lambda>vertices. DefineFace vertices 12 positions [4, 0, 3, 7] QUAD_TEXTURE_COORDS))
              (\<lambda>vertices. DefineFace vertices 16 positions [3, 2, 6, 7] QUAD_TEXTURE_COORDS))
              (\<lambda>vertices. DefineFace vertices 20 positions [0, 1, 5, 4] QUAD_TEXTURE_COORDS))
           (GenerateFaceIndices indices 6 0))"

subsection \<open>CircleFactory.cpp\<close>

text \<open>
  The floating-point operations of \<^verbatim>\<open>CircleFactory::createShape\<close> belong to GLM and to the
  arithmetic of \<^verbatim>\<open>double\<close>, not to the repository: they are parameters of the model.
  \<open>to_float\<close> is the narrowing of a \<^verbatim>\<open>double\<close> to \<^verbatim>\<open>float\<close>.
\<close>

record fpu =
  glm_radians :: "real \<Rightarrow> real"
  glm_cos :: "real \<Rightarrow> real"
  glm_sin :: "real \<Rightarrow> real"
  double_add :: "real \<Rightarrow> real \<Rightarrow> real"
  double_mul :: "real \<Rightarrow> real \<Rightarrow> real"
  to_float :: "real \<Rightarrow> real"

definition circle_position :: "fpu \<Rightarrow> int \<Rightarrow> int \<Rightarrow> vec3" where
  "circle_position F m_angles i =
     (let currentAngle = of_int (m_angles * i)
      in vec3 (to_float F (glm_cos F (glm_radians F currentAngle)))
              (to_float F (glm_sin F (glm_radians F currentAngle)))
              0)"

definition circle_texture :: "fpu \<Rightarrow> int \<Rightarrow> int \<Rightarrow> real \<times> real" where
  "circle_texture F m_angles i =
     (let currentAngle = of_int (m_angles * i)
      in (to_float F (double_add F (1 / 2)
                        (double_mul F (1 / 2) (glm_cos F (glm_radians F currentAngle)))),
          to_float F (double_add F (1 / 2)
                        (double_mul F (1 / 2) (glm_sin F (glm_radians F currentAngle))))))"

function CircleFactory_vertex_loop ::
  "fpu \<Rightarrow> int \<Rightarrow> int \<Rightarrow> int \<Rightarrow> VertexList \<times> (real \<times> real) list
     \<Rightarrow> failure option \<times> VertexList \<times> (real \<times> real) list" where
  "CircleFactory_vertex_loop F m_angles vertexCount i (vertices, textureCoords) =
     (if i < vertexCount
      then (if 0 \<le> i \<and> nat i < length vertices \<and> nat i < length textureCoords
            then CircleFactory_vertex_loop F m_angles vertexCount (i + 1)
                   (put_position vertices (nat i) (circle_position F m_angles i),
                    textureCoords[nat i := circle_texture F m_angles i])
            else (Some (Undefined OutOfBoundsWrite), vertices, textureCoords))
      else (None, vertices, textureCoords))"
  by pat_completeness auto
termination
  by (relation "measure (\<lambda>(F, m_angles, vertexCount, i, s). nat (vertexCount - i))") auto

function CircleFactory_index_loop :: "int \<Rightarrow> int \<Rightarrow> IndexList \<Rightarrow> IndexList" where
  "CircleFactory_index_loop i faceCount indices =
     (if i < faceCount
      then CircleFactory_index_loop (i + 1) faceCount
             (indices @ [to_unsigned 0, to_unsigned (i + 2), to_unsigned (i + 1)])
      else indices)"
  by pat_completeness auto
termination
  by (relation "measure (\<lambda>(i, faceCount, indices). nat (faceCount - i))") auto

text \<open>
  \<^verbatim>\<open>360 / m_angles\<close> is undefined for a zero step; a negative count converts to a
  \<^verbatim>\<open>size_t\<close> beyond \<^verbatim>\<open>max_size()\<close>, for which the vector constructor throws
  \<^verbatim>\<open>std::length_error\<close>.
\<close>

definition VECTOR_LENGTH_MESSAGE :: string where
  "VECTOR_LENGTH_MESSAGE = ''cannot create std::vector larger than max_size()''"

definition CircleFactory_geometry :: "fpu \<Rightarrow> int \<Rightarrow> failure + (VertexList \<times> IndexList)" where
  "CircleFactory_geometry F m_angles =
     (if m_angles = 0 then Inl (Undefined DivisionByZero)
      else
        let vertexCount = c_div 360 m_angles;
            faceCount = vertexCount - 2
        in if vertexCount < 0 then Inl (Exception (StdException VECTOR_LENGTH_MESSAGE))
           else
             let vertices = replicate (nat vertexCount) Vertex0;
                 indices = [];
                 textureCoords = replicate (nat vertexCount) (0, 0)
             in case CircleFactory_vertex_loop F m_angles vertexCount 0 (vertices, textureCoords) of
                  (Some f, vertices, textureCoords) \<Rightarrow> Inl f
                | (None, vertices, textureCoords) \<Rightarrow>
                    finish_geometry (AssignTextureCoords vertices 0 textureCoords)
                      (CircleFactory_index_loop 0 faceCount indices))"

section \<open>The OpenGL context\<close>

text \<open>
  The graphics library is outside the repository. Its context is modelled by what the
  code can observe of it and what it does to it: the commands issued so far (\<open>calls\<close>,
  oldest first), the object names the next \<^verbatim>\<open>glGen*\<close> calls will hand out
  (\<open>fresh_names\<close>; with none left the call writes nothing) and the values the next
  \<^verbatim>\<open>glGetError\<close> calls will return (\<open>error_flags\<close>; with none left, no error).
\<close>

datatype GLtarget = GL_ARRAY_BUFFER | GL_ELEMENT_ARRAY_BUFFER

datatype GLerror =
  GL_NO_ERROR | GL_INVALID_ENUM | GL_INVALID_VALUE | GL_INVALID_OPERATION | GL_OUT_OF_MEMORY
  | GL_OTHER_ERROR

datatype GLmode = GL_POINTS | GL_LINES | GL_TRIANGLES

datatype GLtype = GL_FLOAT | GL_UNSIGNED_INT

text \<open>A \<^verbatim>\<open>const void*\<close> to host memory: \<open>None\<close> is \<^verbatim>\<open>nullptr\<close>.\<close>

datatype host_data = VertexData VertexList | IndexData IndexList | OtherData nat

type_synonym host_ptr = "host_data option"

text \<open>
  \<open>BufferData target size data\<close> is always issued with \<^verbatim>\<open>GL_STATIC_DRAW\<close>;
  \<open>VertexAttribPointer index size type normalized stride pointer\<close> and
  \<open>DrawElements mode count type offset\<close> keep the argument order of the library.
\<close>

datatype gl_command =
    GenBuffers
  | BindBuffer GLtarget GLuint
  | BufferData GLtarget int host_ptr
  | DeleteBuffers GLuint
  | GenVertexArrays
  | BindVertexArray GLuint
  | DeleteVertexArrays GLuint
  | VertexAttribPointer GLuint int GLtype bool int int
  | EnableVertexAttribArray GLuint
  | DrawElements GLmode int GLtype nat

record GLContext =
  calls :: "gl_command list"
  fresh_names :: "GLuint list"
  error_flags :: "GLerror list"

definition issue :: "gl_command \<Rightarrow> GLContext \<Rightarrow> GLContext" where
  "issue c ctx = ctx\<lparr>calls := calls ctx @ [c]\<rparr>"

text \<open>\<^verbatim>\<open>glGen*(1, &m_id)\<close>: returns the value of \<^verbatim>\<open>m_id\<close> after the call.\<close>

definition glGen :: "gl_command \<Rightarrow> GLuint \<Rightarrow> GLContext \<Rightarrow> GLuint \<times> GLContext" where
  "glGen c current ctx =
     (case fresh_names ctx of
        [] \<Rightarrow> (current, issue c ctx)
      | name # names \<Rightarrow> (name, issue c (ctx\<lparr>fresh_names := names\<rparr>)))"

definition glGetError :: "GLContext \<Rightarrow> GLerror \<times> GLContext" where
  "glGetError ctx =
     (case error_flags ctx of
        [] \<Rightarrow> (GL_NO_ERROR, ctx)
      | e # es \<Rightarrow> (e, ctx\<lparr>error_flags := es\<rparr>))"

subsection \<open>CheckGLError (ErrorCheck.hpp)\<close>

fun errorMsg :: "GLerror \<Rightarrow> string" where
  "errorMsg GL_INVALID_ENUM = ''Invalid enum''"
| "errorMsg GL_INVALID_VALUE = ''Invalid value''"
| "errorMsg GL_INVALID_OPERATION = ''Invalid operation''"
| "errorMsg GL_OUT_OF_MEMORY = ''Out of memory''"
| "errorMsg e = ''Unknown error''"

definition CheckGLError :: "string \<Rightarrow> GLContext \<Rightarrow> failure option \<times> GLContext" where
  "CheckGLError operation ctx =
     (case glGetError ctx of
        (error, ctx) \<Rightarrow>
          if error \<noteq> GL_NO_ERROR
          then (Some (Exception (GrafException (operation @ '' failed: '' @ errorMsg error))), ctx)
          else (None, ctx))"

section \<open>VertexBuffer (VertexBuffer.cpp)\<close>

record VertexBuffer =
  vb_m_id :: GLuint

definition VertexBuffer_Create ::
  "VertexBuffer \<Rightarrow> host_ptr \<Rightarrow> int \<Rightarrow> GLContext \<Rightarrow> failure option \<times> VertexBuffer \<times> GLContext" where
  "VertexBuffer_Create this data size' ctx =
     (if data = None \<or> size' \<le> 0
      then (Some (Exception (BufferException ''Invalid vertex buffer data or size'')), this, ctx)
      else
        case glGen GenBuffers (vb_m_id this) ctx of
          (name, ctx) \<Rightarrow>
            let this = this\<lparr>vb_m_id := name\<rparr>
            in if vb_m_id this = 0
               then (Some (Exception (BufferException ''Failed to generate vertex buffer'')),
                     this, ctx)
               else
                 let ctx = issue (BindBuffer GL_ARRAY_BUFFER (vb_m_id this)) ctx;
                     ctx = issue (BufferData GL_ARRAY_BUFFER size' data) ctx
                 in case CheckGLError ''Vertex Buffer Creation'' ctx of
                      (r, ctx) \<Rightarrow> (r, this, ctx))"

definition VertexBuffer_Bind :: "VertexBuffer \<Rightarrow> GLContext \<Rightarrow> GLContext" where
  "VertexBuffer_Bind this ctx = issue (BindBuffer GL_ARRAY_BUFFER (vb_m_id this)) ctx"

definition VertexBuffer_Unbind :: "VertexBuffer \<Rightarrow> GLContext \<Rightarrow> GLContext" where
  "VertexBuffer_Unbind this ctx = issue (BindBuffer GL_ARRAY_BUFFER 0) ctx"

definition VertexBuffer_Release :: "VertexBuffer \<Rightarrow> GLContext \<Rightarrow> VertexBuffer \<times> GLContext" where
  "VertexBuffer_Release this ctx =
     (if vb_m_id this \<noteq> 0
      then (this\<lparr>vb_m_id := 0\<rparr>, issue (DeleteBuffers (vb_m_id this)) ctx)
      else (this, ctx))"

section \<open>IndexBuffer (IndexBuffer.cpp)\<close>

record IndexBuffer =
  ib_m_id :: GLuint
  m_IndexCount :: int

definition IndexBuffer_Bind :: "IndexBuffer \<Rightarrow> GLContext \<Rightarrow> GLContext" where
  "IndexBuffer_Bind this ctx = issue (BindBuffer GL_ELEMENT_ARRAY_BUFFER (ib_m_id this)) ctx"

definition IndexBuffer_Create ::
  "IndexBuffer \<Rightarrow> host_ptr \<Rightarrow> int \<Rightarrow> GLContext \<Rightarrow> failure option \<times> IndexBuffer \<times> GLContext" where
  "IndexBuffer_Create this data size' ctx =
     (if data = None \<or> size' \<le> 0
      then (Some (Exception (BufferException ''Invalid buffer data or size'')), this, ctx)
      else
        case glGen GenBuffers (ib_m_id this) ctx of
          (name, ctx) \<Rightarrow>
            let this = this\<lparr>ib_m_id := name\<rparr>
            in if ib_m_id this = 0
               then (Some (Exception (BufferException ''Failed to generate index buffer'')),
                     this, ctx)
               else
                 let ctx = issue (BindBuffer GL_ELEMENT_ARRAY_BUFFER (ib_m_id this)) ctx;
                     ctx = issue (BufferData GL_ELEMENT_ARRAY_BUFFER size' data) ctx
                 in case CheckGLError ''Index Buffer Creation'' ctx of
                      (Some f, ctx) \<Rightarrow> (Some f, this, ctx)
                    | (None, ctx) \<Rightarrow> (None, this\<lparr>m_IndexCount := c_div size' 4\<rparr>, ctx))"

definition getIndexCount :: "IndexBuffer \<Rightarrow> int" where
  "getIndexCount this = m_IndexCount this"

definition IndexBuffer_Release :: "IndexBuffer \<Rightarrow> GLContext \<Rightarrow> IndexBuffer \<times> GLContext" where
  "IndexBuffer_Release this ctx =
     (if ib_m_id this \<noteq> 0
      then (this\<lparr>ib_m_id := 0\<rparr>, issue (DeleteBuffers (ib_m_id this)) ctx)
      else (this, ctx))"

definition IndexBuffer_Unbind :: "IndexBuffer \<Rightarrow> GLContext \<Rightarrow> GLContext" where
  "IndexBuffer_Unbind this ctx = issue (BindBuffer GL_ELEMENT_ARRAY_BUFFER 0) ctx"

section \<open>The object store\<close>

text \<open>
  A \<^verbatim>\<open>std::shared_ptr<T>\<close> is \<open>None\<close> (null) or \<open>Some a\<close>, the address of a live object:
  a vertex array object shares its buffers with whoever else holds them. \<open>heap_next\<close> is
  the next address \<^verbatim>\<open>std::make_shared\<close> hands out. \<open>factory_invocations\<close> is a ghost
  counter without counterpart in the C++ state: it counts the executions of the call
  \<^verbatim>\<open>it->second->createShape()\<close> in \<^verbatim>\<open>ShapeFactoryManager::createShape\<close>.
\<close>

datatype VertexAttributeType = Position | Color | Normal | Texture

type_synonym AttributeList = "VertexAttributeType list"

record VertexArrayObject =
  m_id :: GLuint
  mp_vb :: "nat option"
  mp_ib :: "nat option"
  m_stride :: GLuint
  m_attributes :: AttributeList

record World =
  gl :: GLContext
  vertexBuffers :: "nat \<Rightarrow> VertexBuffer"
  indexBuffers :: "nat \<Rightarrow> IndexBuffer"
  vertexArrays :: "nat \<Rightarrow> VertexArrayObject"
  heap_next :: nat
  factory_invocations :: nat

text \<open>Running a method of the buffer stored at address \<open>a\<close>.\<close>

definition on_vertexBuffer ::
  "nat \<Rightarrow> (VertexBuffer \<Rightarrow> GLContext \<Rightarrow> failure option \<times> VertexBuffer \<times> GLContext)
     \<Rightarrow> World \<Rightarrow> failure option \<times> World" where
  "on_vertexBuffer a method w =
     (case method (vertexBuffers w a) (gl w) of
        (r, this, ctx) \<Rightarrow> (r, w\<lparr>gl := ctx, vertexBuffers := (vertexBuffers w)(a := this)\<rparr>))"

definition on_indexBuffer ::
  "nat \<Rightarrow> (IndexBuffer \<Rightarrow> GLContext \<Rightarrow> failure option \<times> IndexBuffer \<times> GLContext)
     \<Rightarrow> World \<Rightarrow> failure option \<times> World" where
  "on_indexBuffer a method w =
     (case method (indexBuffers w a) (gl w) of
        (r, this, ctx) \<Rightarrow> (r, w\<lparr>gl := ctx, indexBuffers := (indexBuffers w)(a := this)\<rparr>))"

section \<open>VertexArrayObject (VertexArrayObject.cpp)\<close>

definition VertexArrayObject_Create ::
  "VertexArrayObject \<Rightarrow> World \<Rightarrow> failure option \<times> VertexArrayObject \<times> World" where
  "VertexArrayObject_Create this w =
     (case glGen GenVertexArrays (m_id this) (gl w) of
        (name, ctx) \<Rightarrow>
          let this = this\<lparr>m_id := name\<rparr>
          in if m_id this = 0
             then (Some (Exception (BufferException ''Failed to generate Vertex Array Object'')),
                   this, w\<lparr>gl := ctx\<rparr>)
             else
               case CheckGLError ''VAO generation'' ctx of
                 (Some f, ctx) \<Rightarrow> (Some f, this, w\<lparr>gl := ctx\<rparr>)
               | (None, ctx) \<Rightarrow> (None, this\<lparr>m_stride := 0\<rparr>, w\<lparr>gl := ctx\<rparr>))"

definition VertexArrayObject_Bind :: "VertexArrayObject \<Rightarrow> World \<Rightarrow> World" where
  "VertexArrayObject_Bind this w = w\<lparr>gl := issue (BindVertexArray (m_id this)) (gl w)\<rparr>"

text \<open>
  \<^verbatim>\<open>Unbind\<close> calls \<^verbatim>\<open>mp_ib->Unbind()\<close> and \<^verbatim>\<open>mp_vb->Unbind()\<close> without a null check.
\<close>

definition VertexArrayObject_Unbind :: "VertexArrayObject \<Rightarrow> World \<Rightarrow> failure option \<times> World" where
  "VertexArrayObject_Unbind this w =
     (let w = w\<lparr>gl := issue (BindVertexArray 0) (gl w)\<rparr>
      in case mp_ib this of
           None \<Rightarrow> (Some (Undefined NullDereference), w)
         | Some ib \<Rightarrow>
             let w = w\<lparr>gl := IndexBuffer_Unbind (indexBuffers w ib) (gl w)\<rparr>
             in case mp_vb this of
                  None \<Rightarrow> (Some (Undefined NullDereference), w)
                | Some vb \<Rightarrow> (None, w\<lparr>gl := VertexBuffer_Unbind (vertexBuffers w vb) (gl w)\<rparr>))"

text \<open>
  The handler \<^verbatim>\<open>catch (const GrafException& e)\<close> of \<^verbatim>\<open>SetVertexBuffer\<close> and
  \<^verbatim>\<open>SetIndexBuffer\<close>: unbind, then rethrow as a \<^verbatim>\<open>BufferException\<close> with context.
\<close>

definition unbind_and_rethrow ::
  "string \<Rightarrow> failure option \<Rightarrow> VertexArrayObject \<Rightarrow> World \<Rightarrow> failure option \<times> VertexArrayObject \<times> World" where
  "unbind_and_rethrow context r this w =
     (case r of
        None \<Rightarrow> (None, this, w)
      | Some (Undefined u) \<Rightarrow> (Some (Undefined u), this, w)
      | Some (Exception e) \<Rightarrow>
          if is_GrafException e
          then (case VertexArrayObject_Unbind this w of
                  (Some f, w) \<Rightarrow> (Some f, this, w)
                | (None, w) \<Rightarrow> (Some (Exception (BufferException (context @ what e))), this, w))
          else (Some (Exception e), this, w))"

definition SetVertexBuffer ::
  "VertexArrayObject \<Rightarrow> nat option \<Rightarrow> World \<Rightarrow> failure option \<times> VertexArrayObject \<times> World" where
  "SetVertexBuffer this p_vb w =
     (case p_vb of
        None \<Rightarrow> (Some (Exception (BufferException ''Null vertex buffer'')), this, w)
      | Some vb \<Rightarrow>
          let this = this\<lparr>mp_vb := p_vb\<rparr>;
              w = VertexArrayObject_Bind this w;
              w = w\<lparr>gl := VertexBuffer_Bind (vertexBuffers w vb) (gl w)\<rparr>
          in case CheckGLError ''Vertex buffer binding'' (gl w) of
               (r, ctx) \<Rightarrow>
                 unbind_and_rethrow ''Failed to set vertex buffer: '' r this (w\<lparr>gl := ctx\<rparr>))"

definition Draw :: "VertexArrayObject \<Rightarrow> World \<Rightarrow> failure option \<times> World" where
  "Draw this w =
     (case mp_ib this of
        None \<Rightarrow> (Some (Exception (BufferException ''No index buffer bound for drawing'')), w)
      | Some ib \<Rightarrow>
          let ctx = issue (DrawElements GL_TRIANGLES (getIndexCount (indexBuffers w ib))
                             GL_UNSIGNED_INT 0) (gl w)
          in case CheckGLError ''Draw call'' ctx of
               (r, ctx) \<Rightarrow> (r, w\<lparr>gl := ctx\<rparr>))"

definition SetIndexBuffer ::
  "VertexArrayObject \<Rightarrow> nat option \<Rightarrow> World \<Rightarrow> failure option \<times> VertexArrayObject \<times> World" where
  "SetIndexBuffer this p_ib w =
     (case p_ib of
        None \<Rightarrow> (Some (Exception (BufferException ''Null index buffer'')), this, w)
      | Some ib \<Rightarrow>
          let this = this\<lparr>mp_ib := p_ib\<rparr>;
              w = VertexArrayObject_Bind this w;
              w = w\<lparr>gl := IndexBuffer_Bind (indexBuffers w ib) (gl w)\<rparr>
          in case CheckGLError ''Index buffer binding'' (gl w) of
               (r, ctx) \<Rightarrow>
                 unbind_and_rethrow ''Failed to set index buffer: '' r this (w\<lparr>gl := ctx\<rparr>))"

fun getTypeSize :: "VertexAttributeType \<Rightarrow> int" where
  "getTypeSize Position = 4 * 3"
| "getTypeSize Normal = 4 * 3"
| "getTypeSize Color = 4 * 4"
| "getTypeSize Texture = 4 * 2"

text \<open>\<^verbatim>\<open>m_stride\<close> is an \<^verbatim>\<open>unsigned int\<close>: the addition wraps modulo \<open>2^32\<close>.\<close>

definition AddVertexAttribute :: "VertexArrayObject \<Rightarrow> VertexAttributeType \<Rightarrow> VertexArrayObject" where
  "AddVertexAttribute this type =
     this\<lparr>m_attributes := m_attributes this @ [type],
          m_stride := m_stride this + to_unsigned (getTypeSize type)\<rparr>"

text \<open>
  The loop of \<^verbatim>\<open>ActivateAttributes\<close>. The stride argument of \<^verbatim>\<open>glVertexAttribPointer\<close>
  is a \<^verbatim>\<open>GLsizei\<close>, to which the unsigned \<^verbatim>\<open>m_stride\<close> is narrowed. \<^verbatim>\<open>location\<close> is an
  \<^verbatim>\<open>int\<close>: the statement \<^verbatim>\<open>location += attributeSize\<close> at the end of the body overflows
  when the sum exceeds \<open>INT_MAX\<close>. Every attribute adds at least 8 to \<^verbatim>\<open>location\<close>, so
  the counter \<^verbatim>\<open>i\<close>, an \<^verbatim>\<open>int\<close> too, stays far below \<open>INT_MAX\<close> as long as \<^verbatim>\<open>location\<close>
  has not overflowed.
\<close>

function ActivateAttributes_loop ::
  "VertexArrayObject \<Rightarrow> nat \<Rightarrow> int \<Rightarrow> GLContext \<Rightarrow> failure option \<times> GLContext" where
  "ActivateAttributes_loop this i location ctx =
     (if i < length (m_attributes this)
      then
        let attributeSize = getTypeSize (m_attributes this ! i);
            elementCount = c_div attributeSize 4;
            ctx = issue (VertexAttribPointer (of_nat i) elementCount GL_FLOAT False
                           (to_int (unat (m_stride this))) location) ctx
        in case CheckGLError ''Vertex attribute setup'' ctx of
             (Some f, ctx) \<Rightarrow> (Some f, ctx)
           | (None, ctx) \<Rightarrow>
               let ctx = issue (EnableVertexAttribArray (of_nat i)) ctx
               in case CheckGLError ''Vertex attribute enable'' ctx of
                    (Some f, ctx) \<Rightarrow> (Some f, ctx)
                  | (None, ctx) \<Rightarrow>
                      if location + attributeSize > INT_MAX
                      then (Some (Undefined SignedOverflow), ctx)
                      else ActivateAttributes_loop this (i + 1) (location + attributeSize) ctx
      else (None, ctx))"
  by pat_completeness auto
termination
  by (relation "measure (\<lambda>(this, i, location, ctx). length (m_attributes this) - i)") auto

definition ActivateAttributes :: "VertexArrayObject \<Rightarrow> World \<Rightarrow> failure option \<times> World" where
  "ActivateAttributes this w =
     (if m_attributes this = []
      then (Some (Exception (BufferException ''No vertex attributes specified'')), w)
      else case ActivateAttributes_loop this 0 0 (gl w) of
             (r, ctx) \<Rightarrow> (r, w\<lparr>gl := ctx\<rparr>))"

text \<open>\<^verbatim>\<open>Release\<close> calls \<^verbatim>\<open>mp_vb->Release()\<close> without a null check.\<close>

definition VertexArrayObject_Release :: "VertexArrayObject \<Rightarrow> World \<Rightarrow> failure option \<times> World" where
  "VertexArrayObject_Release this w =
     (let w = w\<lparr>gl := issue (DeleteVertexArrays (m_id this)) (gl w)\<rparr>
      in case mp_vb this of
           None \<Rightarrow> (Some (Undefined NullDereference), w)
         | Some vb \<Rightarrow>
             on_vertexBuffer vb (\<lambda>this ctx. case VertexBuffer_Release this ctx of
                                                (this, ctx) \<Rightarrow> (None, this, ctx)) w)"

section \<open>ShapeFactory::createVAOFromData (ShapeFactory.cpp)\<close>

text \<open>Objects as \<^verbatim>\<open>std::make_shared<T>()\<close> value-initialises them.\<close>

definition new_VertexArrayObject :: VertexArrayObject where
  "new_VertexArrayObject =
     \<lparr>m_id = 0, mp_vb = None, mp_ib = None, m_stride = 0, m_attributes = []\<rparr>"

definition new_VertexBuffer :: VertexBuffer where
  "new_VertexBuffer = \<lparr>vb_m_id = 0\<rparr>"

definition new_IndexBuffer :: IndexBuffer where
  "new_IndexBuffer = \<lparr>ib_m_id = 0, m_IndexCount = 0\<rparr>"

text \<open>
  Sequencing of two VAO methods: the second runs on the object and the world the first
  left, unless the first failed.
\<close>

definition vao_then ::
  "failure option \<times> VertexArrayObject \<times> World
     \<Rightarrow> (VertexArrayObject \<Rightarrow> World \<Rightarrow> failure option \<times> VertexArrayObject \<times> World)
     \<Rightarrow> failure option \<times> VertexArrayObject \<times> World" where
  "vao_then r method =
     (case r of
        (None, this, w) \<Rightarrow> method this w
      | (Some f, this, w) \<Rightarrow> (Some f, this, w))"

text \<open>The body of the \<^verbatim>\<open>try\<close> block, up to \<^verbatim>\<open>return p_va\<close>.\<close>

definition setup_VAO ::
  "VertexArrayObject \<Rightarrow> nat \<Rightarrow> nat \<Rightarrow> World \<Rightarrow> failure option \<times> VertexArrayObject \<times> World" where
  "setup_VAO this p_vb p_ib w =
     vao_then (vao_then (vao_then (vao_then (vao_then (vao_then
       (VertexArrayObject_Create this w)
       (\<lambda>this w. SetVertexBuffer this (Some p_vb) w))
       (\<lambda>this w. SetIndexBuffer this (Some p_ib) w))
       (\<lambda>this w. (None, AddVertexAttribute this Position, w)))
       (\<lambda>this w. (None, AddVertexAttribute this Texture, w)))
       (\<lambda>this w. case ActivateAttributes this w of (r, w) \<Rightarrow> (r, this, w)))
       (\<lambda>this w. case VertexArrayObject_Unbind this w of (r, w) \<Rightarrow> (r, this, w))"

text \<open>
  The result is the returned \<^verbatim>\<open>shared_ptr\<close> or the failure, with the world either way.
  The handler \<^verbatim>\<open>catch (const std::exception& e)\<close> rewraps every exception of the
  \<^verbatim>\<open>try\<close> block; the two \<^verbatim>\<open>Create\<close> calls on the buffers stand before it.
  The test \<^verbatim>\<open>if (!p_va || !p_vb || !p_ib)\<close> has no branch here: \<^verbatim>\<open>std::make_shared\<close>
  never returns a null pointer.
\<close>

definition createVAOFromData ::
  "VertexList \<Rightarrow> IndexList \<Rightarrow> World \<Rightarrow> (failure + nat option) \<times> World" where
  "createVAOFromData vertices indices w =
     (let p_va = heap_next w;
          p_vb = heap_next w + 1;
          p_ib = heap_next w + 2;
          w = w\<lparr>heap_next := heap_next w + 3,
                vertexArrays := (vertexArrays w)(p_va := new_VertexArrayObject),
                vertexBuffers := (vertexBuffers w)(p_vb := new_VertexBuffer),
                indexBuffers := (indexBuffers w)(p_ib := new_IndexBuffer)\<rparr>
      in if vertices = [] \<or> indices = []
         then (Inl (Exception (BufferException ''Empty vertex or index data in createVAOFromData'')), w)
         else
           case on_vertexBuffer p_vb
                  (\<lambda>this. VertexBuffer_Create this (Some (VertexData vertices))
                             (to_int (sizeof_Vertex * length vertices))) w of
             (Some f, w) \<Rightarrow> (Inl f, w)
           | (None, w) \<Rightarrow>
               (case on_indexBuffer p_ib
                       (\<lambda>this. IndexBuffer_Create this (Some (IndexData indices))
                                  (to_int (sizeof_unsigned_int * length indices))) w of
                  (Some f, w) \<Rightarrow> (Inl f, w)
                | (None, w) \<Rightarrow>
                    (case setup_VAO (vertexArrays w p_va) p_vb p_ib w of
                       (r, this, w) \<Rightarrow>
                         let w = w\<lparr>vertexArrays := (vertexArrays w)(p_va := this)\<rparr>
                         in case r of
                              None \<Rightarrow> (Inr (Some p_va), w)
                            | Some (Exception e) \<Rightarrow>
                                (Inl (Exception (BufferException (''VAO setup failed: '' @ what e))), w)
                            | Some (Undefined u) \<Rightarrow> (Inl (Undefined u), w))))"

section \<open>The factory classes and their virtual \<^verbatim>\<open>createShape\<close>\<close>

text \<open>
  The subclasses of \<^verbatim>\<open>ShapeFactory\<close> form a closed set; \<^verbatim>\<open>CircleFactory\<close> carries its
  field \<^verbatim>\<open>m_angles\<close>. The virtual call dispatches on the class.
\<close>

datatype ShapeFactory =
  SquareFactory | CircleFactory int | CubeFactory | PyramidFactory | FrustumFactory

fun geometry :: "fpu \<Rightarrow> ShapeFactory \<Rightarrow> failure + (VertexList \<times> IndexList)" where
  "geometry F SquareFactory = SquareFactory_geometry"
| "geometry F (CircleFactory m_angles) = CircleFactory_geometry F m_angles"
| "geometry F CubeFactory = CubeFactory_geometry"
| "geometry F PyramidFactory = PyramidFactory_geometry"
| "geometry F FrustumFactory = FrustumFactory_geometry"

definition ShapeFactory_createShape ::
  "fpu \<Rightarrow> ShapeFactory \<Rightarrow> World \<Rightarrow> (failure + nat option) \<times> World" where
  "ShapeFactory_createShape F factory w =
     (case geometry F factory of
        Inl f \<Rightarrow> (Inl f, w)
      | Inr (vertices, indices) \<Rightarrow> createVAOFromData vertices indices w)"

section \<open>ShapeFactoryManager (ShapeFactoryManager.cpp)\<close>

text \<open>
  \<^verbatim>\<open>enum class ShapeTypes\<close> has \<^verbatim>\<open>int\<close> as underlying type, and \<^verbatim>\<open>main.cpp\<close> casts
  the integer read from the saved scene to it: a value of the type is any \<^verbatim>\<open>int\<close>, five
  of which are named.
\<close>

datatype ShapeTypes = ShapeTypes int

definition Circle :: ShapeTypes where "Circle = ShapeTypes 0"
definition Square :: ShapeTypes where "Square = ShapeTypes 1"
definition Cube :: ShapeTypes where "Cube = ShapeTypes 2"
definition Pyramid :: ShapeTypes where "Pyramid = ShapeTypes 3"
definition Frustum :: ShapeTypes where "Frustum = ShapeTypes 4"

record ShapeFactoryManager =
  factories :: "ShapeTypes \<rightharpoonup> ShapeFactory"
  shapeCache :: "ShapeTypes \<rightharpoonup> nat option"

definition new_ShapeFactoryManager :: ShapeFactoryManager where
  "new_ShapeFactoryManager =
     \<lparr>factories = [Square \<mapsto> SquareFactory,
                    Circle \<mapsto> CircleFactory 10,
                    Cube \<mapsto> CubeFactory,
                    Pyramid \<mapsto> PyramidFactory,
                    Frustum \<mapsto> FrustumFactory],
      shapeCache = Map.empty\<rparr>"

definition UNKNOWN_SHAPE :: failure where
  "UNKNOWN_SHAPE = Exception (GrafException ''Unknown shape type'')"

definition createShape ::
  "fpu \<Rightarrow> ShapeFactoryManager \<Rightarrow> ShapeTypes \<Rightarrow> World
     \<Rightarrow> (failure + nat option) \<times> ShapeFactoryManager \<times> World" where
  "createShape F this shapeType w =
     (case shapeCache this shapeType of
        Some cached \<Rightarrow> (Inr cached, this, w)
      | None \<Rightarrow>
          (case factories this shapeType of
             None \<Rightarrow> (Inl UNKNOWN_SHAPE, this, w)
           | Some factory \<Rightarrow>
               (case ShapeFactory_createShape F factory
                       (w\<lparr>factory_invocations := Suc (factory_invocations w)\<rparr>) of
                  (Inl f, w) \<Rightarrow> (Inl f, this, w)
                | (Inr shape, w) \<Rightarrow>
                    (Inr shape, this\<lparr>shapeCache := (shapeCache this)(shapeType \<mapsto> shape)\<rparr>, w))))"

text \<open>Every cached kind has a factory: the state invariant of the manager.\<close>

definition manager_inv :: "ShapeFactoryManager \<Rightarrow> bool" where
  "manager_inv this \<longleftrightarrow> dom (shapeCache this) \<subseteq> dom (factories this)"

section \<open>Notions used in the statements\<close>

text \<open>The six indices one iteration of \<^verbatim>\<open>GenerateFaceIndices\<close> pushes for face \<open>i\<close>.\<close>

definition face_indices :: "int \<Rightarrow> int \<Rightarrow> IndexList" where
  "face_indices offset i =
     [to_unsigned (offset + i * 4), to_unsigned (offset + i * 4 + 2), to_unsigned (offset + i * 4 + 1),
      to_unsigned (offset + i * 4), to_unsigned (offset + i * 4 + 3), to_unsigned (offset + i * 4 + 2)]"

text \<open>
  The values an \<^verbatim>\<open>int\<close> can hold, and a bound on the size of every \<^verbatim>\<open>std::vector\<close>
  (\<^verbatim>\<open>max_size()\<close> never exceeds \<^verbatim>\<open>PTRDIFF_MAX\<close>).
\<close>

definition is_int :: "int \<Rightarrow> bool" where
  "is_int v \<longleftrightarrow> - (2 ^ 31) \<le> v \<and> v < 2 ^ 31"

definition MAX_SIZE :: nat where
  "MAX_SIZE = 2 ^ 63 - 1"

text \<open>The three indices one iteration of the triangle-fan loop of the circle pushes.\<close>

definition circle_triangle :: "int \<Rightarrow> IndexList" where
  "circle_triangle i = [to_unsigned 0, to_unsigned (i + 2), to_unsigned (i + 1)]"

text \<open>
  A factory's data is well-formed for \<open>n\<close> vertices: it was built without failure, the
  vertex list has length \<open>n\<close> and every index refers to a vertex of the list.
\<close>

definition indices_in_range :: "failure + (VertexList \<times> IndexList) \<Rightarrow> nat \<Rightarrow> bool" where
  "indices_in_range g n \<longleftrightarrow>
     (case g of
        Inl f \<Rightarrow> False
      | Inr (vertices, indices) \<Rightarrow>
          length vertices = n \<and> (\<forall>x \<in> set indices. unat x < length vertices))"

text \<open>
  Floating tolerance: two points are within \<open>eps\<close> when each coordinate is; the
  floating-point unit is accurate to \<open>eps\<close> when the \<^verbatim>\<open>float\<close> it delivers for the cosine
  and the sine of an angle given in whole degrees is within \<open>eps\<close> of the real value.
  \<open>exact_fpu\<close> is the unit that computes in the reals.
\<close>

fun near :: "real \<Rightarrow> vec3 \<Rightarrow> vec3 \<Rightarrow> bool" where
  "near eps (vec3 a b c) (vec3 a' b' c') \<longleftrightarrow>
     \<bar>a - a'\<bar> \<le> eps \<and> \<bar>b - b'\<bar> \<le> eps \<and> \<bar>c - c'\<bar> \<le> eps"

definition accurate :: "fpu \<Rightarrow> real \<Rightarrow> bool" where
  "accurate F eps \<longleftrightarrow>
     (\<forall>d :: int.
        \<bar>to_float F (glm_cos F (glm_radians F (of_int d))) - cos (of_int d * pi / 180)\<bar> \<le> eps \<and>
        \<bar>to_float F (glm_sin F (glm_radians F (of_int d))) - sin (of_int d * pi / 180)\<bar> \<le> eps)"

definition exact_fpu :: fpu where
  "exact_fpu =
     \<lparr>glm_radians = (\<lambda>a. a * pi / 180), glm_cos = cos, glm_sin = sin,
      double_add = (+), double_mul = (*), to_float = (\<lambda>x. x)\<rparr>"

text \<open>
  The byte sizes the specification fixes for the attribute kinds, written down from its
  words and not from the code: Position and Normal 12, Color 16, Texture 8. From them:
  the byte size of a whole layout, the byte offset of attribute \<open>i\<close> in a layout (the sizes
  of the attributes before it), and the two commands that register attribute \<open>i\<close> of a
  layout at that offset with a given stride argument (the number of 4-byte components is
  the size divided by 4).
\<close>

fun fixed_size :: "VertexAttributeType \<Rightarrow> int" where
  "fixed_size Position = 12"
| "fixed_size Normal = 12"
| "fixed_size Color = 16"
| "fixed_size Texture = 8"

definition layout_size :: "AttributeList \<Rightarrow> int" where
  "layout_size ts = sum_list (map fixed_size ts)"

definition attribute_offset :: "AttributeList \<Rightarrow> nat \<Rightarrow> int" where
  "attribute_offset ts i = sum_list (map fixed_size (take i ts))"

definition registration :: "int \<Rightarrow> AttributeList \<Rightarrow> nat \<Rightarrow> gl_command list" where
  "registration stride ts i =
     [VertexAttribPointer (of_nat i) (fixed_size (ts ! i) div 4) GL_FLOAT False stride
        (attribute_offset ts i),
      EnableVertexAttribArray (of_nat i)]"

definition registrations :: "int \<Rightarrow> AttributeList \<Rightarrow> gl_command list" where
  "registrations stride ts = concat (map (registration stride ts) [0..<length ts])"

text \<open>No cached pointer is null.\<close>

definition cache_nonnull :: "ShapeFactoryManager \<Rightarrow> bool" where
  "cache_nonnull this \<longleftrightarrow> (\<forall>shapeType. shapeCache this shapeType \<noteq> Some None)"

text \<open>A world in which nothing has happened yet, with a context that will hand out \<open>names\<close>.\<close>

definition initial_World :: "GLuint list \<Rightarrow> GLerror list \<Rightarrow> World" where
  "initial_World names errors =
     \<lparr>gl = \<lparr>calls = [], fresh_names = names, error_flags = errors\<rparr>,
      vertexBuffers = (\<lambda>a. new_VertexBuffer),
      indexBuffers = (\<lambda>a. new_IndexBuffer),
      vertexArrays = (\<lambda>a. new_VertexArrayObject),
      heap_next = 0,
      factory_invocations = 0\<rparr>"

section \<open>Lists of equal-sized chunks\<close>

lemma concat_chunks_drop:
  "\<forall>ys \<in> set yss. length ys = k \<Longrightarrow> drop (k * i) (concat yss) = concat (drop i yss)"
proof (induction yss arbitrary: i)
  case Nil
  then show ?case by simp
next
  case (Cons a yss)
  show ?case
  proof (cases i)
    case 0
    then show ?thesis by simp
  next
    case (Suc j)
    with Cons show ?thesis by simp
  qed
qed

lemma concat_chunks_slice:
  assumes "\<forall>ys \<in> set yss. length ys = k" and "i < length yss"
  shows "take k (drop (k * i) (concat yss)) = yss ! i"
proof -
  have "drop i yss = yss ! i # drop (Suc i) yss"
    using assms(2) by (simp add: Cons_nth_drop_Suc)
  moreover have "length (yss ! i) = k"
    using assms by simp
  ultimately show ?thesis
    using concat_chunks_drop [OF assms(1), of i] by simp
qed

lemma length_concat_chunks:
  "\<forall>ys \<in> set yss. length ys = k \<Longrightarrow> length (concat yss) = k * length yss"
  by (induction yss) auto

section \<open>GenerateFaceIndices\<close>

lemma loop_closed:
  "GenerateFaceIndices_loop i N b xs = xs @ concat (map (face_indices b) [i..N - 1])"
proof (induction i N b xs rule: GenerateFaceIndices_loop.induct)
  case (1 i faceCount offset indices)
  show ?case
  proof (cases "i < faceCount")
    case True
    then have "[i..faceCount - 1] = i # [i + 1..faceCount - 1]"
      by (simp add: upto_rec1)
    with True 1 show ?thesis
      by (simp add: face_indices_def)
  next
    case False
    then show ?thesis by simp
  qed
qed

lemma upto_as_upt: "[0..int n - 1] = map int [0..<n]"
proof (induction n)
  case 0
  show ?case by simp
next
  case (Suc n)
  have "[0..int (Suc n) - 1] = [0..int n - 1] @ [int n]"
    using upto_rec2 [of 0 "int n"] by simp
  with Suc show ?case by simp
qed

lemma GenerateFaceIndices_closed:
  "GenerateFaceIndices xs N b = xs @ concat (map (face_indices b) (map int [0..<nat N]))"
proof (cases "0 \<le> N")
  case True
  then have "[0..N - 1] = map int [0..<nat N]"
    using upto_as_upt [of "nat N"] by simp
  then show ?thesis
    by (simp only: GenerateFaceIndices_def loop_closed)
next
  case False
  then have "[0..N - 1] = []" and "[0..<nat N] = []"
    by simp_all
  then show ?thesis
    by (simp only: GenerateFaceIndices_def loop_closed) simp
qed

lemma face_slice:
  assumes "i < nat N"
  shows "take 6 (drop (length xs + 6 * i) (GenerateFaceIndices xs N b)) = face_indices b (int i)"
proof -
  let ?yss = "map (face_indices b) (map int [0..<nat N])"
  have len: "\<forall>ys \<in> set ?yss. length ys = 6"
    by (auto simp: face_indices_def)
  have "take 6 (drop (6 * i) (concat ?yss)) = ?yss ! i"
    using assms by (intro concat_chunks_slice [OF len]) simp
  then show ?thesis
    using assms by (simp add: GenerateFaceIndices_closed)
qed

lemma uint_to_unsigned: "0 \<le> v \<Longrightarrow> v < 2 ^ 32 \<Longrightarrow> uint (to_unsigned v) = v"
  by (simp add: to_unsigned_def uint_word_of_int take_bit_int_eq_self)

text \<open>
  Claim C1. For every face count \<open>N\<close> and every starting offset \<open>b\<close>,
  \<^verbatim>\<open>GenerateFaceIndices\<close> appends exactly \<open>6 * N\<close> indices (none for a negative \<open>N\<close>) to
  the index list and leaves the entries already there unchanged; for each face \<open>i < N\<close> the
  six entries appended for it are the triangles \<open>(b+4i, b+4i+2, b+4i+1)\<close> and
  \<open>(b+4i, b+4i+3, b+4i+2)\<close>, in that order, as values of the unsigned 32-bit element type.
  Whenever \<open>0 \<le> b\<close> and \<open>b + 4N \<le> 2^32\<close> the stored numbers are these integers themselves.
\<close>

theorem GenerateFaceIndices_appends:
  "length (GenerateFaceIndices xs N b) = length xs + 6 * nat N \<and>
   take (length xs) (GenerateFaceIndices xs N b) = xs \<and>
   (\<forall>i < nat N.
      take 6 (drop (length xs + 6 * i) (GenerateFaceIndices xs N b)) =
        map to_unsigned [b + 4 * int i, b + 4 * int i + 2, b + 4 * int i + 1,
                         b + 4 * int i, b + 4 * int i + 3, b + 4 * int i + 2]) \<and>
   (0 \<le> b \<and> b + 4 * N \<le> 2 ^ 32 \<longrightarrow>
      (\<forall>i < nat N.
         map uint (take 6 (drop (length xs + 6 * i) (GenerateFaceIndices xs N b))) =
           [b + 4 * int i, b + 4 * int i + 2, b + 4 * int i + 1,
            b + 4 * int i, b + 4 * int i + 3, b + 4 * int i + 2]))"
proof (intro conjI allI impI)
  show "length (GenerateFaceIndices xs N b) = length xs + 6 * nat N"
    by (simp add: GenerateFaceIndices_closed length_concat_chunks [where k = 6] face_indices_def)
  show "take (length xs) (GenerateFaceIndices xs N b) = xs"
    by (simp add: GenerateFaceIndices_closed)
next
  fix i assume "i < nat N"
  then show "take 6 (drop (length xs + 6 * i) (GenerateFaceIndices xs N b)) =
        map to_unsigned [b + 4 * int i, b + 4 * int i + 2, b + 4 * int i + 1,
                         b + 4 * int i, b + 4 * int i + 3, b + 4 * int i + 2]"
    by (simp only: face_slice) (simp add: face_indices_def mult.commute)
next
  fix i assume b: "0 \<le> b \<and> b + 4 * N \<le> 2 ^ 32" and i: "i < nat N"
  from i have "int i + 1 \<le> N" by linarith
  with b have hi: "b + 4 * int i + 3 < 2 ^ 32" by linarith
  from b have lo: "0 \<le> b + 4 * int i" by simp
  show "map uint (take 6 (drop (length xs + 6 * i) (GenerateFaceIndices xs N b))) =
           [b + 4 * int i, b + 4 * int i + 2, b + 4 * int i + 1,
            b + 4 * int i, b + 4 * int i + 3, b + 4 * int i + 2]"
    using lo hi by (simp only: face_slice [OF i]) (simp add: face_indices_def mult.commute uint_to_unsigned)
qed


theorem GenerateFaceIndices_appends_witness:
  "(1::nat) < nat 2 \<and> (0::int) \<le> 4 \<and> (4::int) + 4 * 2 \<le> 2 ^ 32 \<and>
   length (GenerateFaceIndices [7] 2 4) = 13 \<and>
   take 6 (drop (length [7::GLuint] + 6 * 1) (GenerateFaceIndices [7] 2 4)) = [8, 10, 9, 8, 11, 10] \<and>
   map uint (take 6 (drop (length [7::GLuint] + 6 * 1) (GenerateFaceIndices [7] 2 4))) = [8, 10, 9, 8, 11, 10]"
proof -
  note spec = GenerateFaceIndices_appends [of "[7]" 2 4]
  have i: "(1::nat) < nat 2" by simp
  have pre: "(0::int) \<le> 4 \<and> (4::int) + 4 * 2 \<le> 2 ^ 32" by simp
  have len: "length (GenerateFaceIndices [7] 2 4) = 13"
    using spec [THEN conjunct1] by simp
  have tri: "take 6 (drop (length [7::GLuint] + 6 * 1) (GenerateFaceIndices [7] 2 4)) =
      map to_unsigned [4 + 4 * int 1, 4 + 4 * int 1 + 2, 4 + 4 * int 1 + 1,
                       4 + 4 * int 1, 4 + 4 * int 1 + 3, 4 + 4 * int 1 + 2]"
    using spec [THEN conjunct2, THEN conjunct2, THEN conjunct1, rule_format, OF i] .
  have num: "map uint (take 6 (drop (length [7::GLuint] + 6 * 1) (GenerateFaceIndices [7] 2 4))) =
      [4 + 4 * int 1, 4 + 4 * int 1 + 2, 4 + 4 * int 1 + 1,
       4 + 4 * int 1, 4 + 4 * int 1 + 3, 4 + 4 * int 1 + 2]"
    using spec [THEN conjunct2, THEN conjunct2, THEN conjunct2, rule_format, OF pre i] .
  have "take 6 (drop (length [7::GLuint] + 6 * 1) (GenerateFaceIndices [7] 2 4)) = [8, 10, 9, 8, 11, 10]"
    unfolding tri by (simp add: to_unsigned_def)
  moreover have "map uint (take 6 (drop (length [7::GLuint] + 6 * 1) (GenerateFaceIndices [7] 2 4))) = [8, 10, 9, 8, 11, 10]"
    unfolding num by simp
  ultimately show ?thesis
    using len i pre by blast
qed

section \<open>AssignTextureCoords and DefineFace\<close>

declare AssignTextureCoords_loop.simps [simp del]
declare DefineFace_loop.simps [simp del]

lemma subscript_nonneg:
  "0 \<le> offset \<Longrightarrow> nat offset + i < SIZE_MOD \<Longrightarrow> subscript offset i = nat offset + i"
proof -
  assume a: "0 \<le> offset" and b: "nat offset + i < SIZE_MOD"
  then have "offset < int SIZE_MOD" by linarith
  with a have "offset mod int SIZE_MOD = offset" by simp
  with b show ?thesis
    by (simp add: subscript_def size_add_def to_size_t_def)
qed

lemma AssignTextureCoords_loop_length:
  "length (snd (AssignTextureCoords_loop i vs off cs)) = length vs"
proof (induction i vs off cs rule: AssignTextureCoords_loop.induct)
  case (1 i vertices offset coords)
  then show ?case
    by (subst AssignTextureCoords_loop.simps) simp
qed

lemma AssignTextureCoords_loop_frame:
  "k < length vs \<Longrightarrow> \<forall>j. i \<le> j \<and> j < length cs \<longrightarrow> subscript off j \<noteq> k \<Longrightarrow>
   snd (AssignTextureCoords_loop i vs off cs) ! k = vs ! k"
proof (induction i vs off cs rule: AssignTextureCoords_loop.induct)
  case (1 i vertices offset coords)
  show ?case
  proof (cases "i < length coords \<and> subscript offset i < length vertices")
    case True
    then have ne: "subscript offset i \<noteq> k"
      using "1.prems"(2) by auto
    have "snd (AssignTextureCoords_loop (i + 1)
             (vertices[subscript offset i :=
                SetTextureCoords (vertices ! subscript offset i) (fst (coords ! i)) (snd (coords ! i))])
             offset coords) ! k =
          (vertices[subscript offset i :=
                SetTextureCoords (vertices ! subscript offset i) (fst (coords ! i)) (snd (coords ! i))]) ! k"
      using True "1.prems" by (intro "1.IH") auto
    with True ne show ?thesis
      by (subst AssignTextureCoords_loop.simps) simp
  next
    case False
    then show ?thesis
      by (subst AssignTextureCoords_loop.simps) auto
  qed
qed

lemma AssignTextureCoords_loop_ok:
  "\<forall>j. i \<le> j \<and> j < length cs \<longrightarrow> subscript off j < length vs \<Longrightarrow>
   fst (AssignTextureCoords_loop i vs off cs) = None"
proof (induction i vs off cs rule: AssignTextureCoords_loop.induct)
  case (1 i vertices offset coords)
  show ?case
  proof (cases "i < length coords")
    case True
    then have inb: "subscript offset i < length vertices"
      using "1.prems" by auto
    have "fst (AssignTextureCoords_loop (i + 1)
             (vertices[subscript offset i :=
                SetTextureCoords (vertices ! subscript offset i) (fst (coords ! i)) (snd (coords ! i))])
             offset coords) = None"
      using True inb "1.prems" by (intro "1.IH") auto
    with True inb show ?thesis
      by (subst AssignTextureCoords_loop.simps) simp
  next
    case False
    then show ?thesis
      by (subst AssignTextureCoords_loop.simps) auto
  qed
qed

lemma DefineFace_loop_length:
  "length (snd (DefineFace_loop i vs off ps sel)) = length vs"
proof (induction i vs off ps sel rule: DefineFace_loop.induct)
  case (1 i vertices offset positions vertexIndices)
  then show ?case
    by (subst DefineFace_loop.simps) simp
qed

lemma DefineFace_loop_frame:
  "k < length vs \<Longrightarrow> \<forall>j. i \<le> j \<and> j < length sel \<longrightarrow> subscript off j \<noteq> k \<Longrightarrow>
   snd (DefineFace_loop i vs off ps sel) ! k = vs ! k"
proof (induction i vs off ps sel rule: DefineFace_loop.induct)
  case (1 i vertices offset positions vertexIndices)
  let ?ok = "0 \<le> vertexIndices ! i \<and> vertexIndices ! i < int (length positions)"
  show ?case
  proof (cases "i < length vertexIndices \<and> ?ok \<and> subscript offset i < length vertices")
    case True
    then have ne: "subscript offset i \<noteq> k"
      using "1.prems"(2) by auto
    have "snd (DefineFace_loop (i + 1)
             (vertices[subscript offset i :=
                (vertices ! subscript offset i)\<lparr>position := positions ! nat (vertexIndices ! i)\<rparr>])
             offset positions vertexIndices) ! k =
          (vertices[subscript offset i :=
                (vertices ! subscript offset i)\<lparr>position := positions ! nat (vertexIndices ! i)\<rparr>]) ! k"
      using True "1.prems" by (intro "1.IH") auto
    with True ne show ?thesis
      by (subst DefineFace_loop.simps) simp
  next
    case False
    then show ?thesis
      by (subst DefineFace_loop.simps) auto
  qed
qed

lemma DefineFace_loop_ok:
  "\<forall>j. i \<le> j \<and> j < length sel \<longrightarrow> subscript off j < length vs \<Longrightarrow>
   \<forall>j. i \<le> j \<and> j < length sel \<longrightarrow> 0 \<le> sel ! j \<and> sel ! j < int (length ps) \<Longrightarrow>
   fst (DefineFace_loop i vs off ps sel) = None"
proof (induction i vs off ps sel rule: DefineFace_loop.induct)
  case (1 i vertices offset positions vertexIndices)
  show ?case
  proof (cases "i < length vertexIndices")
    case True
    then have inb: "subscript offset i < length vertices"
      and ok: "0 \<le> vertexIndices ! i \<and> vertexIndices ! i < int (length positions)"
      using "1.prems" by auto
    have "fst (DefineFace_loop (i + 1)
             (vertices[subscript offset i :=
                (vertices ! subscript offset i)\<lparr>position := positions ! nat (vertexIndices ! i)\<rparr>])
             offset positions vertexIndices) = None"
      using True inb ok "1.prems" by (intro "1.IH") auto
    with True inb ok show ?thesis
      by (subst DefineFace_loop.simps) simp
  next
    case False
    then show ?thesis
      by (subst DefineFace_loop.simps) auto
  qed
qed


lemma size_add_nonneg:
  assumes "0 \<le> offset" and "is_int offset" and "n \<le> MAX_SIZE"
  shows "size_add (to_size_t offset) n = nat offset + n"
    and "\<forall>j \<le> n. subscript offset j = nat offset + j"
proof -
  have bound: "nat offset + n < SIZE_MOD"
    using assms by (simp add: is_int_def MAX_SIZE_def SIZE_MOD_def)
  then show "size_add (to_size_t offset) n = nat offset + n"
    using subscript_nonneg [OF assms(1) bound] by (simp add: subscript_def)
  show "\<forall>j \<le> n. subscript offset j = nat offset + j"
    using bound assms(1) by (auto intro: subscript_nonneg)
qed

lemma AssignTextureCoords_nonneg:
  assumes "0 \<le> offset" and "is_int offset" and "length coords \<le> MAX_SIZE"
  shows "fst (AssignTextureCoords vertices offset coords) =
           (if nat offset + length coords > length vertices
            then Some (Exception (GrafException TEXTURE_RANGE_MESSAGE)) else None)"
    and "length (snd (AssignTextureCoords vertices offset coords)) = length vertices"
    and "k < length vertices \<Longrightarrow> \<not> (nat offset \<le> k \<and> k < nat offset + length coords) \<Longrightarrow>
         snd (AssignTextureCoords vertices offset coords) ! k = vertices ! k"
proof -
  note sz = size_add_nonneg [OF assms]
  show "fst (AssignTextureCoords vertices offset coords) =
           (if nat offset + length coords > length vertices
            then Some (Exception (GrafException TEXTURE_RANGE_MESSAGE)) else None)"
  proof (cases "nat offset + length coords > length vertices")
    case True
    then show ?thesis by (simp add: AssignTextureCoords_def sz(1))
  next
    case False
    then have "\<forall>j. 0 \<le> j \<and> j < length coords \<longrightarrow> subscript offset j < length vertices"
      using sz(2) by auto
    then have "fst (AssignTextureCoords_loop 0 vertices offset coords) = None"
      by (rule AssignTextureCoords_loop_ok)
    with False show ?thesis by (simp add: AssignTextureCoords_def sz(1))
  qed
  show "length (snd (AssignTextureCoords vertices offset coords)) = length vertices"
    by (simp add: AssignTextureCoords_def AssignTextureCoords_loop_length)
  show "snd (AssignTextureCoords vertices offset coords) ! k = vertices ! k"
    if k: "k < length vertices" and out: "\<not> (nat offset \<le> k \<and> k < nat offset + length coords)"
  proof -
    have "\<forall>j. 0 \<le> j \<and> j < length coords \<longrightarrow> subscript offset j \<noteq> k"
      using sz(2) out by auto
    then have "snd (AssignTextureCoords_loop 0 vertices offset coords) ! k = vertices ! k"
      using k by (intro AssignTextureCoords_loop_frame) auto
    then show ?thesis by (simp add: AssignTextureCoords_def)
  qed
qed

lemma DefineFace_nonneg:
  assumes "0 \<le> offset" and "is_int offset"
    and "length vertexIndices \<le> MAX_SIZE" and "length textureCoords \<le> MAX_SIZE"
    and sel: "\<forall>v \<in> set vertexIndices. 0 \<le> v \<and> v < int (length positions)"
  shows "fst (DefineFace vertices offset positions vertexIndices textureCoords) =
           (if nat offset + length vertexIndices > length vertices
            then Some (Exception (GrafException INDEX_RANGE_MESSAGE))
            else if nat offset + length textureCoords > length vertices
            then Some (Exception (GrafException TEXTURE_RANGE_MESSAGE)) else None)"
    and "length (snd (DefineFace vertices offset positions vertexIndices textureCoords)) = length vertices"
    and "k < length vertices \<Longrightarrow>
         \<not> (nat offset \<le> k \<and> k < nat offset + max (length vertexIndices) (length textureCoords)) \<Longrightarrow>
         snd (DefineFace vertices offset positions vertexIndices textureCoords) ! k = vertices ! k"
proof -
  note sz = size_add_nonneg [OF assms(1,2,3)]
  note tex = AssignTextureCoords_nonneg [OF assms(1,2,4)]
  let ?loop = "DefineFace_loop 0 vertices offset positions vertexIndices"
  have len_loop: "length (snd ?loop) = length vertices"
    by (rule DefineFace_loop_length)
  have ok: "fst ?loop = None" if "\<not> nat offset + length vertexIndices > length vertices"
  proof -
    have "\<forall>j. 0 \<le> j \<and> j < length vertexIndices \<longrightarrow> subscript offset j < length vertices"
      using sz(2) that by auto
    moreover have "\<forall>j. 0 \<le> j \<and> j < length vertexIndices \<longrightarrow>
        0 \<le> vertexIndices ! j \<and> vertexIndices ! j < int (length positions)"
      using sel by auto
    ultimately show ?thesis by (rule DefineFace_loop_ok)
  qed
  show "fst (DefineFace vertices offset positions vertexIndices textureCoords) =
           (if nat offset + length vertexIndices > length vertices
            then Some (Exception (GrafException INDEX_RANGE_MESSAGE))
            else if nat offset + length textureCoords > length vertices
            then Some (Exception (GrafException TEXTURE_RANGE_MESSAGE)) else None)"
  proof (cases "nat offset + length vertexIndices > length vertices")
    case True
    then show ?thesis by (simp add: DefineFace_def sz(1))
  next
    case False
    obtain vs where loop: "?loop = (None, vs)"
      using ok [OF False] by (cases ?loop) auto
    with len_loop have "length vs = length vertices" by simp
    with False loop tex(1) [of vs] show ?thesis
      by (simp add: DefineFace_def sz(1) and_then_def)
  qed
  show "length (snd (DefineFace vertices offset positions vertexIndices textureCoords)) = length vertices"
    using len_loop tex(2)
    by (cases ?loop) (auto simp: DefineFace_def and_then_def split: option.splits)
  show "snd (DefineFace vertices offset positions vertexIndices textureCoords) ! k = vertices ! k"
    if k: "k < length vertices"
      and out: "\<not> (nat offset \<le> k \<and> k < nat offset + max (length vertexIndices) (length textureCoords))"
  proof -
    have "\<forall>j. 0 \<le> j \<and> j < length vertexIndices \<longrightarrow> subscript offset j \<noteq> k"
      using sz(2) out by auto
    then have frame: "snd ?loop ! k = vertices ! k"
      using k by (intro DefineFace_loop_frame) auto
    have out': "\<not> (nat offset \<le> k \<and> k < nat offset + length textureCoords)"
      using out by auto
    have "snd (AssignTextureCoords (snd ?loop) offset textureCoords) ! k = snd ?loop ! k"
      using k len_loop out' by (intro tex(3)) auto
    with frame show ?thesis
      by (cases ?loop) (auto simp: DefineFace_def and_then_def split: option.splits)
  qed
qed

text \<open>
  Claim C4, as amended. For a non-negative \<open>offset\<close>: \<^verbatim>\<open>AssignTextureCoords\<close> fails with
  the texture range exception exactly when \<open>offset + |coords| > |vertices|\<close> and returns
  normally otherwise; \<^verbatim>\<open>DefineFace\<close>, given selectors inside the position table, fails
  with the index range exception when \<open>offset + |vertexIndices| > |vertices|\<close>, else with
  the texture range exception when \<open>offset + |textureCoords| > |vertices|\<close>, and returns
  normally otherwise. In every such call, failing or not, the vertex list keeps its
  length and every vertex at a position outside \<open>[offset, offset + count)\<close> is unchanged,
  where \<open>count\<close> is \<open>|coords|\<close> for \<^verbatim>\<open>AssignTextureCoords\<close> and the larger of
  \<open>|vertexIndices|\<close> and \<open>|textureCoords|\<close> for \<^verbatim>\<open>DefineFace\<close>.
\<close>

theorem range_checks_nonnegative_offset:
  assumes "0 \<le> offset" and "is_int offset"
    and "length coords \<le> MAX_SIZE"
    and "length vertexIndices \<le> MAX_SIZE" and "length textureCoords \<le> MAX_SIZE"
    and "\<forall>v \<in> set vertexIndices. 0 \<le> v \<and> v < int (length positions)"
  shows
    "fst (AssignTextureCoords vertices offset coords) =
       (if nat offset + length coords > length vertices
        then Some (Exception (GrafException TEXTURE_RANGE_MESSAGE)) else None) \<and>
     length (snd (AssignTextureCoords vertices offset coords)) = length vertices \<and>
     (\<forall>k < length vertices.
        \<not> (nat offset \<le> k \<and> k < nat offset + length coords) \<longrightarrow>
        snd (AssignTextureCoords vertices offset coords) ! k = vertices ! k) \<and>
     fst (DefineFace vertices offset positions vertexIndices textureCoords) =
       (if nat offset + length vertexIndices > length vertices
        then Some (Exception (GrafException INDEX_RANGE_MESSAGE))
        else if nat offset + length textureCoords > length vertices
        then Some (Exception (GrafException TEXTURE_RANGE_MESSAGE)) else None) \<and>
     length (snd (DefineFace vertices offset positions vertexIndices textureCoords)) =
       length vertices \<and>
     (\<forall>k < length vertices.
        \<not> (nat offset \<le> k \<and>
           k < nat offset + max (length vertexIndices) (length textureCoords)) \<longrightarrow>
        snd (DefineFace vertices offset positions vertexIndices textureCoords) ! k = vertices ! k)"
  using AssignTextureCoords_nonneg [OF assms(1,2,3)] DefineFace_nonneg [OF assms(1,2,4,5,6)]
  by blast

theorem range_checks_nonnegative_offset_witness:
  "(0::int) \<le> 1 \<and> is_int 1 \<and>
   length TRIANGLE_TEXTURE_COORDS \<le> MAX_SIZE \<and> length [0::int, 1, 2] \<le> MAX_SIZE \<and>
   list_all (\<lambda>v. 0 \<le> v \<and> v < int (length [vec3 0 0 0, vec3 1 0 0, vec3 0 1 0])) [0::int, 1, 2] \<and>
   fst (AssignTextureCoords (replicate 4 Vertex0) 1 TRIANGLE_TEXTURE_COORDS) = None \<and>
   fst (AssignTextureCoords (replicate 3 Vertex0) 1 TRIANGLE_TEXTURE_COORDS) =
     Some (Exception (GrafException TEXTURE_RANGE_MESSAGE)) \<and>
   fst (DefineFace (replicate 3 Vertex0) 1 [vec3 0 0 0, vec3 1 0 0, vec3 0 1 0] [0, 1, 2]
          TRIANGLE_TEXTURE_COORDS) = Some (Exception (GrafException INDEX_RANGE_MESSAGE)) \<and>
   snd (DefineFace (replicate 4 Vertex0) 1 [vec3 0 0 0, vec3 1 0 0, vec3 0 1 0] [0, 1, 2]
          TRIANGLE_TEXTURE_COORDS) ! 0 = replicate 4 Vertex0 ! 0"
proof -
  have h1: "(0::int) \<le> 1" and h2: "is_int 1"
    and h3: "length TRIANGLE_TEXTURE_COORDS \<le> MAX_SIZE"
    and h4: "length [0::int, 1, 2] \<le> MAX_SIZE"
    and h5: "\<forall>v \<in> set [0::int, 1, 2]. 0 \<le> v \<and> v < int (length [vec3 0 0 0, vec3 1 0 0, vec3 0 1 0])"
    by (simp_all add: is_int_def MAX_SIZE_def TRIANGLE_TEXTURE_COORDS_def)
  note spec = range_checks_nonnegative_offset [OF h1 h2 h3 h4 h3 h5]
  have len: "length TRIANGLE_TEXTURE_COORDS = 3"
    by (simp add: TRIANGLE_TEXTURE_COORDS_def)
  have a: "fst (AssignTextureCoords (replicate 4 Vertex0) 1 TRIANGLE_TEXTURE_COORDS) = None"
    using spec [of "replicate 4 Vertex0", THEN conjunct1] by (simp add: len)
  have b: "fst (AssignTextureCoords (replicate 3 Vertex0) 1 TRIANGLE_TEXTURE_COORDS) =
     Some (Exception (GrafException TEXTURE_RANGE_MESSAGE))"
    using spec [of "replicate 3 Vertex0", THEN conjunct1] by (simp add: len)
  have c: "fst (DefineFace (replicate 3 Vertex0) 1 [vec3 0 0 0, vec3 1 0 0, vec3 0 1 0] [0, 1, 2]
          TRIANGLE_TEXTURE_COORDS) = Some (Exception (GrafException INDEX_RANGE_MESSAGE))"
    using spec [of "replicate 3 Vertex0", THEN conjunct2, THEN conjunct2, THEN conjunct2,
        THEN conjunct1] by simp
  have k: "(0::nat) < length (replicate 4 Vertex0)" by simp
  have out: "\<not> (nat 1 \<le> (0::nat) \<and>
      0 < nat 1 + max (length [0::int, 1, 2]) (length TRIANGLE_TEXTURE_COORDS))" by simp
  have d: "snd (DefineFace (replicate 4 Vertex0) 1 [vec3 0 0 0, vec3 1 0 0, vec3 0 1 0] [0, 1, 2]
          TRIANGLE_TEXTURE_COORDS) ! 0 = replicate 4 Vertex0 ! 0"
    using spec [of "replicate 4 Vertex0", THEN conjunct2, THEN conjunct2, THEN conjunct2,
        THEN conjunct2, THEN conjunct2, rule_format, OF k out] .
  have h5': "list_all (\<lambda>v. 0 \<le> v \<and> v < int (length [vec3 0 0 0, vec3 1 0 0, vec3 0 1 0]))
      [0::int, 1, 2]"
    by simp
  show ?thesis
    using h1 h2 h3 h4 h5' a b c d by (intro conjI)
qed

text \<open>
  Claim C4 as stated does not hold. On three vertices, \<^verbatim>\<open>DefineFace\<close> with three
  selectors and the four quad texture coordinates fails with the range exception although
  \<open>offset + |vertexIndices| = 3\<close> does not exceed the length of the vertex list. On four
  vertices, \<^verbatim>\<open>DefineFace\<close> with three selectors and four texture coordinates returns
  normally and has changed vertex 3, which lies outside \<open>[0, 3)\<close>.
\<close>

theorem DefineFace_fails_within_selector_range:
  "OutOfRange (fst (DefineFace (replicate 3 Vertex0) 0 [vec3 0 0 0, vec3 1 0 0, vec3 0 1 0]
                      [0, 1, 2] QUAD_TEXTURE_COORDS)) \<and>
   \<not> (0 + int (length [0::int, 1, 2]) > int (length (replicate 3 Vertex0))) \<and>
   fst (DefineFace (replicate 4 Vertex0) 0 [vec3 0 0 0, vec3 1 0 0, vec3 0 1 0]
          [0, 1, 2] [(1, 1), (1, 1), (1, 1), (1, 1)]) = None \<and>
   snd (DefineFace (replicate 4 Vertex0) 0 [vec3 0 0 0, vec3 1 0 0, vec3 0 1 0]
          [0, 1, 2] [(1, 1), (1, 1), (1, 1), (1, 1)]) ! 3 \<noteq> replicate 4 Vertex0 ! 3 \<and>
   \<not> (0 \<le> (3::int) \<and> (3::int) < 0 + int (length [0::int, 1, 2]))"
  by (simp add: DefineFace_def DefineFace_loop.simps AssignTextureCoords_def
        AssignTextureCoords_loop.simps and_then_def subscript_def
        size_add_def to_size_t_def SIZE_MOD_def QUAD_TEXTURE_COORDS_def OutOfRange_def
        SetTextureCoords_def Vertex0_def)

text \<open>
  Claim C10. The claim says that a negative \<open>offset\<close> always raises the range exception.
  On 24 vertices with \<open>offset = -1\<close> and the four quad texture coordinates the sum
  \<open>offset + |coords|\<close> wraps to 3 in \<^verbatim>\<open>size_t\<close>, the check passes, and the first write goes
  to subscript \<open>2^64 - 1\<close>, outside the vertex list; \<^verbatim>\<open>DefineFace\<close> does the same.
\<close>

theorem negative_offset_passes_range_check:
  "size_add (to_size_t (- 1)) (length QUAD_TEXTURE_COORDS) = 3 \<and>
   subscript (- 1) 0 = 2 ^ 64 - 1 \<and>
   AssignTextureCoords (replicate 24 Vertex0) (- 1) QUAD_TEXTURE_COORDS =
     (Some (Undefined OutOfBoundsWrite), replicate 24 Vertex0) \<and>
   DefineFace (replicate 24 Vertex0) (- 1) [vec3 0 0 0, vec3 1 0 0, vec3 0 1 0, vec3 1 1 0]
       [0, 1, 2, 3] QUAD_TEXTURE_COORDS =
     (Some (Undefined OutOfBoundsWrite), replicate 24 Vertex0)"
  by (simp add: DefineFace_def DefineFace_loop.simps AssignTextureCoords_def
        AssignTextureCoords_loop.simps and_then_def subscript_def
        size_add_def to_size_t_def SIZE_MOD_def QUAD_TEXTURE_COORDS_def)

section \<open>The circle: vertex ring and triangle fan\<close>

declare CircleFactory_vertex_loop.simps [simp del]
declare CircleFactory_index_loop.simps [simp del]


lemma CircleFactory_index_loop_closed:
  "CircleFactory_index_loop i faceCount xs = xs @ concat (map circle_triangle [i..faceCount - 1])"
proof (induction i faceCount xs rule: CircleFactory_index_loop.induct)
  case (1 i faceCount indices)
  show ?case
  proof (cases "i < faceCount")
    case True
    then have "[i..faceCount - 1] = i # [i + 1..faceCount - 1]"
      by (simp add: upto_rec1)
    with True 1 show ?thesis
      by (subst CircleFactory_index_loop.simps) (simp add: circle_triangle_def [symmetric])
  next
    case False
    then show ?thesis
      by (subst CircleFactory_index_loop.simps) simp
  qed
qed

lemma CircleFactory_index_loop_from_0:
  "CircleFactory_index_loop 0 (int n) [] = concat (map circle_triangle (map int [0..<n]))"
  using upto_as_upt [of n] by (simp add: CircleFactory_index_loop_closed)

lemma CircleFactory_vertex_loop_result:
  assumes "0 \<le> i" and "length vs = nat vc" and "length tcs = nat vc"
  shows "\<exists>vs' tcs'. CircleFactory_vertex_loop F m vc i (vs, tcs) = (None, vs', tcs') \<and>
           length vs' = length vs \<and> length tcs' = length tcs \<and>
           (\<forall>k < length vs. position (vs' ! k) =
              (if nat i \<le> k then circle_position F m (int k) else position (vs ! k)))"
  using assms
proof (induction F m vc i "(vs, tcs)" arbitrary: vs tcs rule: CircleFactory_vertex_loop.induct)
  case (1 F m_angles vertexCount i vertices textureCoords)
  show ?case
  proof (cases "i < vertexCount")
    case True
    with "1.prems" have inb: "0 \<le> i \<and> nat i < length vertices \<and> nat i < length textureCoords"
      by auto
    let ?vs = "put_position vertices (nat i) (circle_position F m_angles i)"
    let ?tcs = "textureCoords[nat i := circle_texture F m_angles i]"
    have "\<exists>vs' tcs'. CircleFactory_vertex_loop F m_angles vertexCount (i + 1) (?vs, ?tcs) =
             (None, vs', tcs') \<and>
           length vs' = length ?vs \<and> length tcs' = length ?tcs \<and>
           (\<forall>k < length ?vs. position (vs' ! k) =
              (if nat (i + 1) \<le> k then circle_position F m_angles (int k) else position (?vs ! k)))"
      using True inb "1.prems" by (intro "1.hyps") (auto simp: put_position_def)
    then obtain vs' tcs' where
      r: "CircleFactory_vertex_loop F m_angles vertexCount (i + 1) (?vs, ?tcs) = (None, vs', tcs')"
      and l: "length vs' = length ?vs" "length tcs' = length ?tcs"
      and c: "\<forall>k < length ?vs. position (vs' ! k) =
              (if nat (i + 1) \<le> k then circle_position F m_angles (int k) else position (?vs ! k))"
      by blast
    have eq: "CircleFactory_vertex_loop F m_angles vertexCount i (vertices, textureCoords) =
        (None, vs', tcs')"
      using True inb r by (subst CircleFactory_vertex_loop.simps) simp
    have "\<forall>k < length vertices. position (vs' ! k) =
              (if nat i \<le> k then circle_position F m_angles (int k) else position (vertices ! k))"
    proof (intro allI impI)
      fix k assume k: "k < length vertices"
      then have ck: "position (vs' ! k) =
              (if nat (i + 1) \<le> k then circle_position F m_angles (int k) else position (?vs ! k))"
        using c by (simp add: put_position_def)
      show "position (vs' ! k) =
              (if nat i \<le> k then circle_position F m_angles (int k) else position (vertices ! k))"
      proof (cases "k = nat i")
        case True
        have "\<not> nat (i + 1) \<le> k" and "int k = i"
          using True inb by linarith+
        moreover have "position (?vs ! k) = circle_position F m_angles i"
          using True inb by (simp add: put_position_def)
        ultimately show ?thesis
          using ck True by simp
      next
        case False
        with ck k inb show ?thesis by (auto simp: put_position_def)
      qed
    qed
    with eq l show ?thesis by (simp add: put_position_def)
  next
    case False
    then have "CircleFactory_vertex_loop F m_angles vertexCount i (vertices, textureCoords) =
        (None, vertices, textureCoords)"
      by (subst CircleFactory_vertex_loop.simps) simp
    moreover have "\<forall>k < length vertices. \<not> nat i \<le> k"
      using False "1.prems" by auto
    ultimately show ?thesis by simp
  qed
qed

lemma AssignTextureCoords_loop_position:
  "map position (snd (AssignTextureCoords_loop i vs off cs)) = map position vs"
proof (induction i vs off cs rule: AssignTextureCoords_loop.induct)
  case (1 i vertices offset coords)
  show ?case
  proof (cases "i < length coords \<and> subscript offset i < length vertices")
    case True
    let ?k = "subscript offset i"
    let ?vs = "vertices[?k := SetTextureCoords (vertices ! ?k) (fst (coords ! i)) (snd (coords ! i))]"
    have "map position (snd (AssignTextureCoords_loop (i + 1) ?vs offset coords)) = map position ?vs"
      using True by (intro "1.IH") auto
    moreover have "map position ?vs = map position vertices"
      using True by (simp add: map_update SetTextureCoords_def list_update_same_conv)
    ultimately show ?thesis
      using True by (subst AssignTextureCoords_loop.simps) simp
  next
    case False
    then show ?thesis
      by (subst AssignTextureCoords_loop.simps) auto
  qed
qed

lemma AssignTextureCoords_position:
  "map position (snd (AssignTextureCoords vs off cs)) = map position vs"
  by (simp add: AssignTextureCoords_def AssignTextureCoords_loop_position)


lemma unat_to_unsigned: "0 \<le> v \<Longrightarrow> v < 2 ^ 32 \<Longrightarrow> unat (to_unsigned v) = nat v"
  using uint_to_unsigned [of v] by (simp add: unat_eq_nat_uint del: nat_uint_eq)

lemma c_div_360_bound: "nat (c_div 360 m) \<le> 360"
proof -
  have "\<bar>360::int\<bar> div \<bar>m\<bar> \<le> 360"
  proof (cases "m = 0")
    case True
    then show ?thesis by simp
  next
    case False
    then have "360 div \<bar>m\<bar> \<le> 360 div (1::int)"
      by (intro zdiv_mono2) simp_all
    then show ?thesis by simp
  qed
  moreover have "0 \<le> \<bar>360::int\<bar> div \<bar>m\<bar>"
    by (simp add: div_int_pos_iff)
  then have "sgn (360::int) * sgn m * (\<bar>360\<bar> div \<bar>m\<bar>) \<le> \<bar>360\<bar> div \<bar>m\<bar>"
    by (cases "m < 0"; cases "m = 0") (simp_all add: sgn_if)
  ultimately show ?thesis by (simp add: c_div_def)
qed

lemma CircleFactory_geometry_result:
  assumes "m \<noteq> 0" and "0 \<le> c_div 360 m"
  shows "\<exists>vertices. CircleFactory_geometry F m =
             Inr (vertices, CircleFactory_index_loop 0 (c_div 360 m - 2) []) \<and>
           length vertices = nat (c_div 360 m) \<and>
           (\<forall>k < length vertices. position (vertices ! k) = circle_position F m (int k))"
proof -
  let ?n = "nat (c_div 360 m)"
  obtain vs tcs where
    loop: "CircleFactory_vertex_loop F m (c_div 360 m) 0 (replicate ?n Vertex0, replicate ?n (0, 0)) =
             (None, vs, tcs)"
    and len: "length vs = ?n" "length tcs = ?n"
    and pos: "\<forall>k < ?n. position (vs ! k) = circle_position F m (int k)"
    using CircleFactory_vertex_loop_result [of 0 "replicate ?n Vertex0" "c_div 360 m"
        "replicate ?n (0, 0)" F m]
    by auto
  have sz: "length tcs \<le> MAX_SIZE"
    using c_div_360_bound [of m] len by (simp add: MAX_SIZE_def)
  have z: "(0::int) \<le> 0" "is_int 0"
    by (simp_all add: is_int_def)
  note tex = AssignTextureCoords_nonneg [OF z sz, where vertices = vs]
  obtain vs' where atc: "AssignTextureCoords vs 0 tcs = (None, vs')"
    using tex(1) len by (cases "AssignTextureCoords vs 0 tcs") auto
  have len': "length vs' = ?n"
    using tex(2) atc len by simp
  have "map position vs' = map position vs"
    using AssignTextureCoords_position [of vs 0 tcs] atc by simp
  then have "\<forall>k < ?n. position (vs' ! k) = position (vs ! k)"
    using len len' by (metis nth_map)
  with pos have pos': "\<forall>k < ?n. position (vs' ! k) = circle_position F m (int k)"
    by simp
  have "CircleFactory_geometry F m = Inr (vs', CircleFactory_index_loop 0 (c_div 360 m - 2) [])"
    using assms loop atc by (simp add: CircleFactory_geometry_def Let_def finish_geometry_def)
  with len' pos' show ?thesis by simp
qed

lemma circle_indices_10:
  "CircleFactory_index_loop 0 (c_div 360 10 - 2) [] =
     concat (map circle_triangle (map int [0..<34]))"
proof -
  have "c_div 360 10 - 2 = int 34" by (simp add: c_div_def)
  then show ?thesis by (simp only: CircleFactory_index_loop_from_0)
qed

section \<open>The data of the five factories\<close>

lemma DefineFace_returns:
  assumes "0 \<le> offset" and "is_int offset"
    and "length vertexIndices \<le> MAX_SIZE" and "length textureCoords \<le> MAX_SIZE"
    and "\<forall>v \<in> set vertexIndices. 0 \<le> v \<and> v < int (length positions)"
    and "nat offset + length vertexIndices \<le> length vertices"
    and "nat offset + length textureCoords \<le> length vertices"
  shows "\<exists>vertices'. DefineFace vertices offset positions vertexIndices textureCoords =
            (None, vertices') \<and> length vertices' = length vertices"
proof -
  note face = DefineFace_nonneg [OF assms(1-5), where vertices = vertices]
  let ?r = "DefineFace vertices offset positions vertexIndices textureCoords"
  have "fst ?r = None"
    using face(1) assms(6,7) by simp
  moreover have "length (snd ?r) = length vertices"
    by (rule face(2))
  ultimately show ?thesis
    by (cases ?r) simp
qed

lemma quad_face:
  assumes "length vertices = 24" and "offset \<in> {0, 4, 8, 12, 16, 20}"
    and "\<forall>v \<in> set sel. 0 \<le> v \<and> v < 8" and "length sel = 4" and "length positions = 8"
  shows "\<exists>vertices'. DefineFace vertices offset positions sel QUAD_TEXTURE_COORDS =
            (None, vertices') \<and> length vertices' = 24"
proof -
  have "\<exists>vertices'. DefineFace vertices offset positions sel QUAD_TEXTURE_COORDS =
            (None, vertices') \<and> length vertices' = length vertices"
    using assms
    by (intro DefineFace_returns)
       (auto simp: is_int_def MAX_SIZE_def QUAD_TEXTURE_COORDS_def)
  with assms(1) show ?thesis by simp
qed

lemma six_quads:
  assumes "length positions = 8"
    and "\<forall>v \<in> set s0 \<union> set s1 \<union> set s2 \<union> set s3 \<union> set s4 \<union> set s5. 0 \<le> v \<and> v < 8"
    and "length s0 = 4" "length s1 = 4" "length s2 = 4" "length s3 = 4" "length s4 = 4" "length s5 = 4"
  shows "\<exists>vertices. finish_geometry
           (and_then (and_then (and_then (and_then (and_then
              (DefineFace (replicate 24 Vertex0) 0 positions s0 QUAD_TEXTURE_COORDS)
              (\<lambda>vertices. DefineFace vertices 4 positions s1 QUAD_TEXTURE_COORDS))
              (\<lambda>vertices. DefineFace vertices 8 positions s2 QUAD_TEXTURE_COORDS))
              (\<lambda>vertices. DefineFace vertices 12 positions s3 QUAD_TEXTURE_COORDS))
              (\<lambda>vertices. DefineFace vertices 16 positions s4 QUAD_TEXTURE_COORDS))
              (\<lambda>vertices. DefineFace vertices 20 positions s5 QUAD_TEXTURE_COORDS))
           indices = Inr (vertices, indices) \<and> length vertices = 24"
proof -
  obtain v0 where f0: "DefineFace (replicate 24 Vertex0) 0 positions s0 QUAD_TEXTURE_COORDS = (None, v0)"
    and l0: "length v0 = 24"
    using quad_face [of "replicate 24 Vertex0" 0 s0 positions] assms by auto
  obtain v1 where f1: "DefineFace v0 4 positions s1 QUAD_TEXTURE_COORDS = (None, v1)"
    and l1: "length v1 = 24"
    using quad_face [of v0 4 s1 positions] assms l0 by auto
  obtain v2 where f2: "DefineFace v1 8 positions s2 QUAD_TEXTURE_COORDS = (None, v2)"
    and l2: "length v2 = 24"
    using quad_face [of v1 8 s2 positions] assms l1 by auto
  obtain v3 where f3: "DefineFace v2 12 positions s3 QUAD_TEXTURE_COORDS = (None, v3)"
    and l3: "length v3 = 24"
    using quad_face [of v2 12 s3 positions] assms l2 by auto
  obtain v4 where f4: "DefineFace v3 16 positions s4 QUAD_TEXTURE_COORDS = (None, v4)"
    and l4: "length v4 = 24"
    using quad_face [of v3 16 s4 positions] assms l3 by auto
  obtain v5 where f5: "DefineFace v4 20 positions s5 QUAD_TEXTURE_COORDS = (None, v5)"
    and l5: "length v5 = 24"
    using quad_face [of v4 20 s5 positions] assms l4 by auto
  show ?thesis
    using f0 f1 f2 f3 f4 f5 l5 by (simp add: and_then_def finish_geometry_def)
qed

lemma six_faces_indices:
  "GenerateFaceIndices [] 6 0 =
     [0, 2, 1, 0, 3, 2, 4, 6, 5, 4, 7, 6, 8, 10, 9, 8, 11, 10,
      12, 14, 13, 12, 15, 14, 16, 18, 17, 16, 19, 18, 20, 22, 21, 20, 23, 22]"
  by (simp add: GenerateFaceIndices_def to_unsigned_def)

lemma Cube_in_range: "indices_in_range CubeFactory_geometry 24"
proof -
  define ps :: "vec3 list" where
    "ps = [vec3 (- (1 / 2)) (1 / 2) (1 / 2), vec3 (1 / 2) (1 / 2) (1 / 2),
             vec3 (1 / 2) (- (1 / 2)) (1 / 2), vec3 (- (1 / 2)) (- (1 / 2)) (1 / 2),
             vec3 (- (1 / 2)) (1 / 2) (- (1 / 2)), vec3 (1 / 2) (1 / 2) (- (1 / 2)),
             vec3 (1 / 2) (- (1 / 2)) (- (1 / 2)), vec3 (- (1 / 2)) (- (1 / 2)) (- (1 / 2))]"
  have "\<exists>vertices. finish_geometry
           (and_then (and_then (and_then (and_then (and_then
              (DefineFace (replicate 24 Vertex0) 0 ps [0, 1, 2, 3] QUAD_TEXTURE_COORDS)
              (\<lambda>vertices. DefineFace vertices 4 ps [1, 5, 6, 2] QUAD_TEXTURE_COORDS))
              (\<lambda>vertices. DefineFace vertices 8 ps [4, 5, 1, 0] QUAD_TEXTURE_COORDS))
              (\<lambda>vertices. DefineFace vertices 12 ps [4, 0, 3, 7] QUAD_TEXTURE_COORDS))
              (\<lambda>vertices. DefineFace vertices 16 ps [5, 4, 7, 6] QUAD_TEXTURE_COORDS))
              (\<lambda>vertices. DefineFace vertices 20 ps [3, 2, 6, 7] QUAD_TEXTURE_COORDS))
           (GenerateFaceIndices [] 6 0) = Inr (vertices, GenerateFaceIndices [] 6 0) \<and>
         length vertices = 24"
    by (rule six_quads) (simp_all add: ps_def)
  then obtain vs where eq: "CubeFactory_geometry = Inr (vs, GenerateFaceIndices [] 6 0)"
    and len: "length vs = 24"
    unfolding CubeFactory_geometry_def Let_def ps_def by blast
  have "indices_in_range (Inr (vs, GenerateFaceIndices [] 6 0)) 24"
    using len by (simp add: indices_in_range_def six_faces_indices)
  then show ?thesis
    by (simp only: eq)
qed

lemma Frustum_in_range: "indices_in_range FrustumFactory_geometry 24"
proof -
  define ps :: "vec3 list" where
    "ps = [vec3 (- (1 / 2)) (1 / 2) (1 / 2), vec3 (1 / 2) (1 / 2) (1 / 2),
             vec3 1 (- (1 / 2)) 1, vec3 (- 1) (- (1 / 2)) 1,
             vec3 (- (1 / 2)) (1 / 2) (- (1 / 2)), vec3 (1 / 2) (1 / 2) (- (1 / 2)),
             vec3 1 (- (1 / 2)) (- 1), vec3 (- 1) (- (1 / 2)) (- 1)]"
  have "\<exists>vertices. finish_geometry
           (and_then (and_then (and_then (and_then (and_then
              (DefineFace (replicate 24 Vertex0) 0 ps [0, 1, 2, 3] QUAD_TEXTURE_COORDS)
              (\<lambda>vertices. DefineFace vertices 4 ps [1, 5, 6, 2] QUAD_TEXTURE_COORDS))
              (\<lambda>vertices. DefineFace vertices 8 ps [5, 4, 7, 6] QUAD_TEXTURE_COORDS))
              (\<lambda>vertices. DefineFace vertices 12 ps [4, 0, 3, 7] QUAD_TEXTURE_COORDS))
              (\<lambda>vertices. DefineFace vertices 16 ps [3, 2, 6, 7] QUAD_TEXTURE_COORDS))
              (\<lambda>vertices. DefineFace vertices 20 ps [0, 1, 5, 4] QUAD_TEXTURE_COORDS))
           (GenerateFaceIndices [] 6 0) = Inr (vertices, GenerateFaceIndices [] 6 0) \<and>
         length vertices = 24"
    by (rule six_quads) (simp_all add: ps_def)
  then obtain vs where eq: "FrustumFactory_geometry = Inr (vs, GenerateFaceIndices [] 6 0)"
    and len: "length vs = 24"
    unfolding FrustumFactory_geometry_def Let_def ps_def by blast
  have "indices_in_range (Inr (vs, GenerateFaceIndices [] 6 0)) 24"
    using len by (simp add: indices_in_range_def six_faces_indices)
  then show ?thesis
    by (simp only: eq)
qed

lemma Square_in_range: "indices_in_range SquareFactory_geometry 6"
  by (simp add: indices_in_range_def SquareFactory_geometry_def Let_def put_position_def
        put_texture_def)


lemma pyramid_face:
  assumes "length vertices = 16" and "0 \<le> offset" and "offset \<le> 12"
    and "\<forall>v \<in> set sel. 0 \<le> v \<and> v < 5" and "length positions = 5"
    and "length sel = length tex" and "nat offset + length sel \<le> 16"
  shows "\<exists>vertices'. DefineFace vertices offset positions sel tex =
            (None, vertices') \<and> length vertices' = 16"
proof -
  have "\<exists>vertices'. DefineFace vertices offset positions sel tex =
            (None, vertices') \<and> length vertices' = length vertices"
    using assms
    by (intro DefineFace_returns) (auto simp: is_int_def MAX_SIZE_def)
  with assms(1) show ?thesis by simp
qed

lemma Pyramid_in_range: "indices_in_range PyramidFactory_geometry 16"
proof -
  define ps :: "vec3 list" where
    "ps = [vec3 0 (1 / 2) 0,
             vec3 (- (1 / 2)) (- (1 / 2)) (1 / 2),
             vec3 (1 / 2) (- (1 / 2)) (1 / 2),
             vec3 (1 / 2) (- (1 / 2)) (- (1 / 2)),
             vec3 (- (1 / 2)) (- (1 / 2)) (- (1 / 2))]"
  have lp: "length ps = 5" by (simp add: ps_def)
  have lt: "length TRIANGLE_TEXTURE_COORDS = 3" and lq: "length QUAD_TEXTURE_COORDS = 4"
    by (simp_all add: TRIANGLE_TEXTURE_COORDS_def QUAD_TEXTURE_COORDS_def)
  obtain v0 where f0: "DefineFace (replicate 16 Vertex0) 0 ps [0, 1, 2] TRIANGLE_TEXTURE_COORDS = (None, v0)"
    and l0: "length v0 = 16"
    using pyramid_face [of "replicate 16 Vertex0" 0 "[0, 1, 2]" ps TRIANGLE_TEXTURE_COORDS] lp lt
    by auto
  obtain v1 where f1: "DefineFace v0 3 ps [0, 2, 3] TRIANGLE_TEXTURE_COORDS = (None, v1)"
    and l1: "length v1 = 16"
    using pyramid_face [of v0 3 "[0, 2, 3]" ps TRIANGLE_TEXTURE_COORDS] lp lt l0 by auto
  obtain v2 where f2: "DefineFace v1 6 ps [0, 3, 4] TRIANGLE_TEXTURE_COORDS = (None, v2)"
    and l2: "length v2 = 16"
    using pyramid_face [of v1 6 "[0, 3, 4]" ps TRIANGLE_TEXTURE_COORDS] lp lt l1 by auto
  obtain v3 where f3: "DefineFace v2 9 ps [0, 4, 1] TRIANGLE_TEXTURE_COORDS = (None, v3)"
    and l3: "length v3 = 16"
    using pyramid_face [of v2 9 "[0, 4, 1]" ps TRIANGLE_TEXTURE_COORDS] lp lt l2 by auto
  obtain v4 where f4: "DefineFace v3 12 ps [1, 2, 3, 4] QUAD_TEXTURE_COORDS = (None, v4)"
    and l4: "length v4 = 16"
    using pyramid_face [of v3 12 "[1, 2, 3, 4]" ps QUAD_TEXTURE_COORDS] lp lq l3 by auto
  have eq: "PyramidFactory_geometry =
      Inr (v4, [0, 1, 2, 3, 4, 5, 6, 7, 8, 9, 10, 11, 12, 13, 14, 12, 14, 15])"
    unfolding PyramidFactory_geometry_def Let_def ps_def [symmetric]
    using f0 f1 f2 f3 f4 by (simp add: and_then_def finish_geometry_def)
  have "indices_in_range
      (Inr (v4, [0, 1, 2, 3, 4, 5, 6, 7, 8, 9, 10, 11, 12, 13, 14, 12, 14, 15])) 16"
    using l4 by (simp add: indices_in_range_def)
  then show ?thesis
    by (simp only: eq)
qed

lemma circle_triangle_bound:
  "k < 34 \<Longrightarrow> x \<in> set (circle_triangle (int k)) \<Longrightarrow> unat x < 36"
proof -
  assume k: "k < 34" and x: "x \<in> set (circle_triangle (int k))"
  have "unat (to_unsigned v) < 36" if "0 \<le> v" and "v < 36" for v
    using that unat_to_unsigned [of v] by simp
  then have "unat (to_unsigned 0) < 36" and "unat (to_unsigned (int k + 2)) < 36"
    and "unat (to_unsigned (int k + 1)) < 36"
    using k by simp_all
  with x show ?thesis
    by (auto simp: circle_triangle_def)
qed

lemma Circle_in_range: "indices_in_range (CircleFactory_geometry F 10) 36"
proof -
  have c: "c_div 360 10 = 36" by (simp add: c_div_def)
  obtain vs where eq: "CircleFactory_geometry F 10 =
      Inr (vs, CircleFactory_index_loop 0 (c_div 360 10 - 2) [])"
    and len: "length vs = 36"
    using CircleFactory_geometry_result [of 10 F] c by auto
  have "\<forall>x \<in> set (concat (map circle_triangle (map int [0..<34]))). unat x < 36"
    by (auto dest: circle_triangle_bound simp del: upt_Suc)
  then have "indices_in_range (Inr (vs, CircleFactory_index_loop 0 (c_div 360 10 - 2) [])) 36"
    using len by (simp add: indices_in_range_def circle_indices_10 del: upt_Suc)
  then show ?thesis
    by (simp only: eq)
qed

text \<open>
  Claim C9. For each of the five factories, as the manager registers them (the circle with
  a step of 10 degrees), the data handed to \<^verbatim>\<open>createVAOFromData\<close> is built without
  failure, the vertex list has 6, 36, 24, 16 and 24 entries respectively, and every entry
  of the index list is strictly less than the length of the vertex list.
\<close>

theorem factory_indices_in_range:
  "indices_in_range SquareFactory_geometry 6 \<and>
   indices_in_range (CircleFactory_geometry F 10) 36 \<and>
   indices_in_range CubeFactory_geometry 24 \<and>
   indices_in_range PyramidFactory_geometry 16 \<and>
   indices_in_range FrustumFactory_geometry 24"
  using Square_in_range Circle_in_range Cube_in_range Pyramid_in_range Frustum_in_range
  by (intro conjI)

theorem factory_indices_in_range_witness:
  "(5::GLuint) \<in> set (snd (projr SquareFactory_geometry)) \<and>
   unat (5::GLuint) < length (fst (projr SquareFactory_geometry)) \<and>
   length (fst (projr (CircleFactory_geometry exact_fpu 10))) = 36"
proof -
  note spec = factory_indices_in_range [of exact_fpu]
  have p: "indices_in_range SquareFactory_geometry 6"
    using spec [THEN conjunct1] .
  obtain vs ixs where eq: "SquareFactory_geometry = Inr (vs, ixs)"
    by (simp add: SquareFactory_geometry_def Let_def)
  have rng: "\<forall>x \<in> set ixs. unat x < length vs"
    using p by (auto simp: indices_in_range_def eq)
  have "ixs = snd (projr SquareFactory_geometry)"
    by (simp add: eq)
  then have mem: "(5::GLuint) \<in> set ixs"
    by (simp add: SquareFactory_geometry_def Let_def)
  with rng have a: "unat (5::GLuint) < length vs" by blast
  have "indices_in_range (CircleFactory_geometry exact_fpu 10) 36"
    using spec [THEN conjunct2, THEN conjunct1] .
  then have b: "length (fst (projr (CircleFactory_geometry exact_fpu 10))) = 36"
    by (cases "CircleFactory_geometry exact_fpu 10") (auto simp: indices_in_range_def)
  show ?thesis
    using mem a b by (simp add: eq)
qed

lemma Circle_10_result:
  "\<exists>vertices. CircleFactory_geometry F 10 =
       Inr (vertices, concat (map circle_triangle (map int [0..<34]))) \<and>
     length vertices = 36 \<and>
     (\<forall>k < 36. position (vertices ! k) = circle_position F 10 (int k))"
proof -
  have c: "c_div 360 10 = 36" by (simp add: c_div_def)
  have "\<exists>vertices. CircleFactory_geometry F 10 =
             Inr (vertices, CircleFactory_index_loop 0 (c_div 360 10 - 2) []) \<and>
           length vertices = nat (c_div 360 10) \<and>
           (\<forall>k < length vertices. position (vertices ! k) = circle_position F 10 (int k))"
    by (rule CircleFactory_geometry_result) (simp_all add: c)
  then obtain vs where "CircleFactory_geometry F 10 =
             Inr (vs, CircleFactory_index_loop 0 (c_div 360 10 - 2) [])"
    and "length vs = nat (c_div 360 10)"
    and "\<forall>k < length vs. position (vs ! k) = circle_position F 10 (int k)"
    by blast
  then have "CircleFactory_geometry F 10 =
       Inr (vs, concat (map circle_triangle (map int [0..<34]))) \<and>
     length vs = 36 \<and>
     (\<forall>k < 36. position (vs ! k) = circle_position F 10 (int k))"
    unfolding circle_indices_10 by (simp add: c)
  then show ?thesis ..
qed

text \<open>
  Claim C2. With the angle step fixed at 10 degrees, \<^verbatim>\<open>CircleFactory::createShape\<close> builds,
  for every floating-point unit, a vertex list of length \<open>360 / 10 = 36\<close> whose vertex \<open>i\<close>
  has the position \<open>(cos (10 i\<degree>), sin (10 i\<degree>), 0)\<close> as the unit computes it, and an index
  list of length \<open>3 * (36 - 2) = 102\<close> in which every consecutive triple contains vertex 0.
  When the unit is accurate to \<open>eps\<close>, every vertex is within \<open>eps\<close> of the exact point of
  the unit circle; in particular vertex 0 is within \<open>eps\<close> of \<open>(1, 0, 0)\<close> and vertex 9 of
  \<open>(0, 1, 0)\<close>.
\<close>

theorem circle_geometry_10_degrees:
  "\<exists>vertices indices.
     CircleFactory_geometry F 10 = Inr (vertices, indices) \<and>
     length vertices = 36 \<and>
     (\<forall>i < 36. position (vertices ! i) =
        vec3 (to_float F (glm_cos F (glm_radians F (10 * real i))))
             (to_float F (glm_sin F (glm_radians F (10 * real i)))) 0) \<and>
     (accurate F eps \<longrightarrow>
        (\<forall>i < 36. near eps (position (vertices ! i))
           (vec3 (cos (10 * real i * pi / 180)) (sin (10 * real i * pi / 180)) 0)) \<and>
        near eps (position (vertices ! 0)) (vec3 1 0 0) \<and>
        near eps (position (vertices ! 9)) (vec3 0 1 0)) \<and>
     length indices = 102 \<and>
     (\<forall>k < 34. 0 \<in> set (take 3 (drop (3 * k) indices)))"
proof -
  let ?ixs = "concat (map circle_triangle (map int [0..<34]))"
  obtain vs where eq: "CircleFactory_geometry F 10 = Inr (vs, ?ixs)"
    and len: "length vs = 36"
    and pos: "\<forall>k < 36. position (vs ! k) = circle_position F 10 (int k)"
    using Circle_10_result [of F] by blast
  have pos': "\<forall>i < 36. position (vs ! i) =
        vec3 (to_float F (glm_cos F (glm_radians F (10 * real i))))
             (to_float F (glm_sin F (glm_radians F (10 * real i)))) 0"
    using pos by (simp add: circle_position_def Let_def)
  have chunks: "\<forall>ys \<in> set (map circle_triangle (map int [0..<34])). length ys = 3"
    by (auto simp: circle_triangle_def simp del: upt_Suc)
  have ilen: "length ?ixs = 102"
    using length_concat_chunks [OF chunks] by simp
  have fan: "\<forall>k < 34. 0 \<in> set (take 3 (drop (3 * k) ?ixs))"
  proof (intro allI impI)
    fix k :: nat assume k: "k < 34"
    then have "take 3 (drop (3 * k) ?ixs) = map circle_triangle (map int [0..<34]) ! k"
      by (intro concat_chunks_slice [OF chunks]) simp
    also have "\<dots> = circle_triangle (int k)"
      using k by (simp del: upt_Suc)
    finally show "0 \<in> set (take 3 (drop (3 * k) ?ixs))"
      by (simp add: circle_triangle_def to_unsigned_def)
  qed
  have tol: "(\<forall>i < 36. near eps (position (vs ! i))
           (vec3 (cos (10 * real i * pi / 180)) (sin (10 * real i * pi / 180)) 0)) \<and>
        near eps (position (vs ! 0)) (vec3 1 0 0) \<and>
        near eps (position (vs ! 9)) (vec3 0 1 0)" if acc: "accurate F eps"
  proof -
    have all: "near eps (position (vs ! i))
           (vec3 (cos (10 * real i * pi / 180)) (sin (10 * real i * pi / 180)) 0)"
      if i: "i < 36" for i
    proof -
      have "\<bar>to_float F (glm_cos F (glm_radians F (of_int (10 * int i)))) -
               cos (of_int (10 * int i) * pi / 180)\<bar> \<le> eps"
        and "\<bar>to_float F (glm_sin F (glm_radians F (of_int (10 * int i)))) -
               sin (of_int (10 * int i) * pi / 180)\<bar> \<le> eps"
        using acc unfolding accurate_def by blast+
      moreover have "0 \<le> eps"
        using calculation(1) by linarith
      ultimately show ?thesis
        using pos' i by simp
    qed
    have "near eps (position (vs ! 0)) (vec3 1 0 0)"
      using all [of 0] by simp
    moreover have "near eps (position (vs ! 9)) (vec3 0 1 0)"
      using all [of 9] by simp
    ultimately show ?thesis
      using all by blast
  qed
  show ?thesis
  proof (intro exI conjI)
    show "CircleFactory_geometry F 10 = Inr (vs, ?ixs)" by (rule eq)
    show "length vs = 36" by (rule len)
    show "\<forall>i < 36. position (vs ! i) =
        vec3 (to_float F (glm_cos F (glm_radians F (10 * real i))))
             (to_float F (glm_sin F (glm_radians F (10 * real i)))) 0" by (rule pos')
    show "accurate F eps \<longrightarrow>
        (\<forall>i < 36. near eps (position (vs ! i))
           (vec3 (cos (10 * real i * pi / 180)) (sin (10 * real i * pi / 180)) 0)) \<and>
        near eps (position (vs ! 0)) (vec3 1 0 0) \<and>
        near eps (position (vs ! 9)) (vec3 0 1 0)"
      using tol by (rule impI)
    show "length ?ixs = 102" by (rule ilen)
    show "\<forall>k < 34. 0 \<in> set (take 3 (drop (3 * k) ?ixs))" by (rule fan)
  qed
qed

theorem circle_geometry_10_degrees_witness:
  "accurate exact_fpu 0 \<and> (9::nat) < 36 \<and> (33::nat) < 34 \<and>
   near 0 (position (fst (projr (CircleFactory_geometry exact_fpu 10)) ! 9)) (vec3 0 1 0) \<and>
   0 \<in> set (take 3 (drop (3 * 33) (snd (projr (CircleFactory_geometry exact_fpu 10)))))"
proof -
  have acc: "accurate exact_fpu 0"
    by (simp add: accurate_def exact_fpu_def)
  obtain vs ixs where eq: "CircleFactory_geometry exact_fpu 10 = Inr (vs, ixs)"
    and tol: "accurate exact_fpu 0 \<longrightarrow>
        (\<forall>i < 36. near 0 (position (vs ! i))
           (vec3 (cos (10 * real i * pi / 180)) (sin (10 * real i * pi / 180)) 0)) \<and>
        near 0 (position (vs ! 0)) (vec3 1 0 0) \<and>
        near 0 (position (vs ! 9)) (vec3 0 1 0)"
    and fan: "\<forall>k < 34. 0 \<in> set (take 3 (drop (3 * k) ixs))"
    using circle_geometry_10_degrees [of exact_fpu 0] by blast
  have "near 0 (position (vs ! 9)) (vec3 0 1 0)"
    using tol acc by blast
  moreover have "0 \<in> set (take 3 (drop (3 * 33) ixs))"
    using fan [rule_format, of 33] by simp
  ultimately show ?thesis
    using acc by (simp add: eq)
qed

section \<open>Buffer creation and release\<close>

text \<open>
  Claim C7. \<^verbatim>\<open>VertexBuffer::Create\<close> and \<^verbatim>\<open>IndexBuffer::Create\<close> fail with the
  invalid-argument \<^verbatim>\<open>BufferException\<close> whenever \<open>data\<close> is null or \<open>size \<le> 0\<close>; the buffer
  object and the graphics context are then exactly as before: no command was issued and
  no buffer name was taken.
\<close>

theorem Create_rejects_invalid_arguments:
  assumes "data = None \<or> size' \<le> 0"
  shows "VertexBuffer_Create vb data size' ctx =
           (Some (Exception (BufferException ''Invalid vertex buffer data or size'')), vb, ctx) \<and>
         IndexBuffer_Create ib data size' ctx =
           (Some (Exception (BufferException ''Invalid buffer data or size'')), ib, ctx)"
  using assms by (auto simp: VertexBuffer_Create_def IndexBuffer_Create_def)

theorem Create_rejects_invalid_arguments_witness:
  "((None :: host_ptr) = None \<or> (10::int) \<le> 0) \<and>
   (Some (OtherData 1) = None \<or> (0::int) \<le> 0) \<and>
   VertexBuffer_Create new_VertexBuffer None 10 (gl (initial_World [1] [])) =
     (Some (Exception (BufferException ''Invalid vertex buffer data or size'')),
      new_VertexBuffer, gl (initial_World [1] [])) \<and>
   IndexBuffer_Create new_IndexBuffer (Some (OtherData 1)) 0 (gl (initial_World [1] [])) =
     (Some (Exception (BufferException ''Invalid buffer data or size'')),
      new_IndexBuffer, gl (initial_World [1] []))"
proof -
  have h1: "(None :: host_ptr) = None \<or> (10::int) \<le> 0" by simp
  have h2: "Some (OtherData 1) = None \<or> (0::int) \<le> 0" by simp
  show ?thesis
    using h1 h2
      Create_rejects_invalid_arguments [OF h1, where vb = new_VertexBuffer
        and ctx = "gl (initial_World [1] [])" and ib = new_IndexBuffer]
      Create_rejects_invalid_arguments [OF h2, where vb = new_VertexBuffer
        and ctx = "gl (initial_World [1] [])" and ib = new_IndexBuffer]
    by blast
qed

text \<open>
  Claim C8. \<^verbatim>\<open>Release\<close> of a vertex or index buffer issues one \<^verbatim>\<open>glDeleteBuffers\<close> for the
  handle exactly when the handle is non-zero, and leaves the handle zero; a second
  \<^verbatim>\<open>Release\<close> changes neither the buffer nor the context, so \<^verbatim>\<open>Release\<close> after
  \<^verbatim>\<open>Release\<close> has the effect of one \<^verbatim>\<open>Release\<close>.
\<close>

theorem Release_idempotent:
  "(case VertexBuffer_Release vb ctx of
      (vb', ctx') \<Rightarrow>
        vb_m_id vb' = 0 \<and>
        calls ctx' = calls ctx @ (if vb_m_id vb \<noteq> 0 then [DeleteBuffers (vb_m_id vb)] else []) \<and>
        VertexBuffer_Release vb' ctx' = (vb', ctx')) \<and>
   (case IndexBuffer_Release ib ctx of
      (ib', ctx') \<Rightarrow>
        ib_m_id ib' = 0 \<and>
        calls ctx' = calls ctx @ (if ib_m_id ib \<noteq> 0 then [DeleteBuffers (ib_m_id ib)] else []) \<and>
        IndexBuffer_Release ib' ctx' = (ib', ctx'))"
  by (simp add: VertexBuffer_Release_def IndexBuffer_Release_def issue_def)

theorem Release_idempotent_witness:
  "VertexBuffer_Release \<lparr>vb_m_id = 7\<rparr> (gl (initial_World [] [])) =
     (\<lparr>vb_m_id = 0\<rparr>, \<lparr>calls = [DeleteBuffers 7], fresh_names = [], error_flags = []\<rparr>) \<and>
   VertexBuffer_Release \<lparr>vb_m_id = 0\<rparr>
       \<lparr>calls = [DeleteBuffers 7], fresh_names = [], error_flags = []\<rparr> =
     (\<lparr>vb_m_id = 0\<rparr>, \<lparr>calls = [DeleteBuffers 7], fresh_names = [], error_flags = []\<rparr>)"
proof -
  have first: "VertexBuffer_Release \<lparr>vb_m_id = 7\<rparr> (gl (initial_World [] [])) =
     (\<lparr>vb_m_id = 0\<rparr>, \<lparr>calls = [DeleteBuffers 7], fresh_names = [], error_flags = []\<rparr>)"
    by (simp add: VertexBuffer_Release_def issue_def initial_World_def)
  show ?thesis
    using Release_idempotent [where vb = "\<lparr>vb_m_id = 7\<rparr>" and ctx = "gl (initial_World [] [])"] first
    by simp
qed

section \<open>Attribute layout of a vertex array object\<close>

declare ActivateAttributes_loop.simps [simp del]

lemma calls_issue: "calls (issue c ctx) = calls ctx @ [c]"
  by (simp add: issue_def)

lemma error_flags_issue: "error_flags (issue c ctx) = error_flags ctx"
  by (simp add: issue_def)

lemma calls_CheckGLError: "calls (snd (CheckGLError operation ctx)) = calls ctx"
  by (simp add: CheckGLError_def glGetError_def split: list.splits)

lemma CheckGLError_no_pending:
  "error_flags ctx = [] \<Longrightarrow> CheckGLError operation ctx = (None, ctx)"
  by (simp add: CheckGLError_def glGetError_def)

text \<open>The sizes \<^verbatim>\<open>getTypeSize\<close> computes are the sizes the specification fixes.\<close>

lemma getTypeSize_fixed: "getTypeSize t = fixed_size t"
  by (cases t) simp_all

lemma elementCount_fixed: "c_div (getTypeSize t) 4 = fixed_size t div 4"
  by (cases t) (simp_all add: c_div_def)

lemma fixed_size_positive: "0 < fixed_size t"
  by (cases t) simp_all

lemma AddVertexAttribute_fields:
  "m_attributes (AddVertexAttribute va t) = m_attributes va @ [t]"
  "m_stride (AddVertexAttribute va t) = m_stride va + to_unsigned (fixed_size t)"
  by (simp_all add: AddVertexAttribute_def getTypeSize_fixed)

lemma foldl_AddVertexAttribute:
  "m_attributes (foldl AddVertexAttribute va ts) = m_attributes va @ ts \<and>
   m_stride (foldl AddVertexAttribute va ts) = m_stride va + to_unsigned (layout_size ts)"
proof (induction ts arbitrary: va)
  case Nil
  show ?case by (simp add: layout_size_def to_unsigned_def)
next
  case (Cons t ts)
  have step: "foldl AddVertexAttribute va (t # ts) =
      foldl AddVertexAttribute (AddVertexAttribute va t) ts"
    by simp
  have "to_unsigned (layout_size (t # ts)) =
      to_unsigned (fixed_size t) + to_unsigned (layout_size ts)"
    by (simp add: layout_size_def to_unsigned_def)
  then show ?case
    unfolding step using Cons [of "AddVertexAttribute va t"]
    by (simp add: AddVertexAttribute_fields)
qed

lemma attribute_offset_Suc:
  "i < length ts \<Longrightarrow> attribute_offset ts (Suc i) = attribute_offset ts i + fixed_size (ts ! i)"
  by (simp add: attribute_offset_def take_Suc_conv_app_nth)

lemma attribute_offset_all: "attribute_offset ts (length ts) = layout_size ts"
  by (simp add: attribute_offset_def layout_size_def)

lemma sum_fixed_nonneg: "0 \<le> sum_list (map fixed_size ts)"
  by (induction ts) (simp_all add: add_nonneg_nonneg less_imp_le [OF fixed_size_positive])

lemma layout_size_nonneg: "0 \<le> layout_size ts"
  by (simp add: layout_size_def sum_fixed_nonneg)

lemma attribute_offset_le: "attribute_offset ts i \<le> layout_size ts"
proof -
  have "layout_size ts = attribute_offset ts i + sum_list (map fixed_size (drop i ts))"
    unfolding layout_size_def attribute_offset_def
    by (metis append_take_drop_id map_append sum_list_append)
  then show ?thesis
    using sum_fixed_nonneg [of "drop i ts"] by simp
qed

lemma attribute_offset_beyond:
  "length ts \<le> i \<Longrightarrow> attribute_offset ts i = layout_size ts"
  by (simp add: attribute_offset_def layout_size_def)

text \<open>
  The counter of the loop is an \<^verbatim>\<open>int\<close> in the source and a natural number here. Every
  attribute takes at least 8 bytes, so the counter is at most an eighth of \<^verbatim>\<open>location\<close> and
  cannot leave the range of \<^verbatim>\<open>int\<close> while \<^verbatim>\<open>location\<close> is in it.
\<close>

lemma counter_below_location:
  "i \<le> length ts \<Longrightarrow> 8 * int i \<le> attribute_offset ts i"
proof (induction i)
  case 0
  show ?case by (simp add: attribute_offset_def)
next
  case (Suc i)
  have "8 \<le> fixed_size (ts ! i)"
    by (cases "ts ! i") simp_all
  then show ?case
    using Suc by (simp add: attribute_offset_Suc)
qed

lemma ActivateAttributes_loop_calls:
  assumes "location = attribute_offset (m_attributes this) i"
    and "location \<le> INT_MAX"
    and "ActivateAttributes_loop this i location ctx = (r, ctx')"
  shows "(\<exists>rest. calls ctx @ concat (map (registration (to_int (unat (m_stride this)))
                                           (m_attributes this))
                                      [i..<length (m_attributes this)]) =
            calls ctx' @ rest) \<and>
         (r = None \<longrightarrow>
            calls ctx' = calls ctx @ concat (map (registration (to_int (unat (m_stride this)))
                                                  (m_attributes this))
                                             [i..<length (m_attributes this)]) \<and>
            layout_size (m_attributes this) \<le> INT_MAX)"
  using assms
proof (induction this i location ctx arbitrary: r ctx' rule: ActivateAttributes_loop.induct)
  case (1 this i location ctx)
  let ?n = "length (m_attributes this)"
  let ?reg = "registration (to_int (unat (m_stride this))) (m_attributes this)"
  show ?case
  proof (cases "i < ?n")
    case False
    then have "ActivateAttributes_loop this i location ctx = (None, ctx)"
      by (subst ActivateAttributes_loop.simps) simp
    moreover have "layout_size (m_attributes this) \<le> INT_MAX"
      using False "1.prems"(1,2) by (simp add: attribute_offset_beyond)
    ultimately show ?thesis
      using "1.prems" False by simp
  next
    case True
    let ?size = "getTypeSize (m_attributes this ! i)"
    let ?vap = "VertexAttribPointer (of_nat i) (c_div ?size 4) GL_FLOAT False
                  (to_int (unat (m_stride this))) location"
    let ?en = "EnableVertexAttribArray (of_nat i)"
    let ?ctx1 = "issue ?vap ctx"
    have reg: "?reg i = [?vap, ?en]"
      using "1.prems"(1) by (simp add: registration_def elementCount_fixed)
    have upt: "[i..<?n] = i # [Suc i..<?n]"
      using True by (simp add: upt_conv_Cons)
    obtain r1 c1 where chk1: "CheckGLError ''Vertex attribute setup'' ?ctx1 = (r1, c1)"
      by (cases "CheckGLError ''Vertex attribute setup'' ?ctx1")
    have calls1: "calls c1 = calls ctx @ [?vap]"
      using calls_CheckGLError [of "''Vertex attribute setup''" ?ctx1] chk1
      by (simp add: calls_issue)
    show ?thesis
    proof (cases r1)
      case (Some f)
      then have "ActivateAttributes_loop this i location ctx = (Some f, c1)"
        using True chk1 by (subst ActivateAttributes_loop.simps) (simp add: Let_def)
      with "1.prems" have "r = Some f" and "ctx' = c1" by simp_all
      then show ?thesis
        using calls1 reg upt by simp
    next
      case None
      let ?ctx2 = "issue ?en c1"
      obtain r2 c2 where chk2: "CheckGLError ''Vertex attribute enable'' ?ctx2 = (r2, c2)"
        by (cases "CheckGLError ''Vertex attribute enable'' ?ctx2")
      have calls2: "calls c2 = calls ctx @ [?vap, ?en]"
        using calls_CheckGLError [of "''Vertex attribute enable''" ?ctx2] chk2 calls1
        by (simp add: calls_issue)
      show ?thesis
      proof (cases r2)
        case (Some f)
        then have "ActivateAttributes_loop this i location ctx = (Some f, c2)"
          using True chk1 chk2 None by (subst ActivateAttributes_loop.simps) (simp add: Let_def)
        with "1.prems" have "r = Some f" and "ctx' = c2" by simp_all
        then show ?thesis
          using calls2 reg upt by simp
      next
        case None2: None
        show ?thesis
        proof (cases "INT_MAX < location + ?size")
          case overflow: True
          have "ActivateAttributes_loop this i location ctx =
              (Some (Undefined SignedOverflow), c2)"
            using True chk1 chk2 None None2 overflow
            by (subst ActivateAttributes_loop.simps) (simp add: Let_def)
          with "1.prems" have "r = Some (Undefined SignedOverflow)" and "ctx' = c2"
            by simp_all
          then show ?thesis
            using calls2 reg upt by simp
        next
          case fits: False
          have unfold: "ActivateAttributes_loop this i location ctx =
              ActivateAttributes_loop this (i + 1) (location + ?size) c2"
            using True chk1 chk2 None None2 fits
            by (subst ActivateAttributes_loop.simps) (simp add: Let_def)
          have loc: "location + ?size = attribute_offset (m_attributes this) (i + 1)"
            using "1.prems"(1) True by (simp add: attribute_offset_Suc getTypeSize_fixed)
          have bound: "location + ?size \<le> INT_MAX"
            using fits by simp
          have rec: "ActivateAttributes_loop this (i + 1) (location + ?size) c2 = (r, ctx')"
            using unfold "1.prems"(3) by simp
          have ih: "(\<exists>rest. calls c2 @ concat (map ?reg [i + 1..<?n]) = calls ctx' @ rest) \<and>
                    (r = None \<longrightarrow>
                       calls ctx' = calls c2 @ concat (map ?reg [i + 1..<?n]) \<and>
                       layout_size (m_attributes this) \<le> INT_MAX)"
            by (rule "1.IH" [OF True refl refl refl chk1 [symmetric] None refl chk2 [symmetric]
                  None2 fits loc bound rec])
          then show ?thesis
            using calls2 reg upt by simp
        qed
      qed
    qed
  qed
qed

lemma ActivateAttributes_loop_result:
  assumes "error_flags ctx = []"
    and "location = attribute_offset (m_attributes this) i"
    and "location \<le> INT_MAX"
  shows "fst (ActivateAttributes_loop this i location ctx) =
           (if layout_size (m_attributes this) \<le> INT_MAX then None
            else Some (Undefined SignedOverflow))"
  using assms
proof (induction this i location ctx rule: ActivateAttributes_loop.induct)
  case (1 this i location ctx)
  show ?case
  proof (cases "i < length (m_attributes this)")
    case False
    then have "layout_size (m_attributes this) \<le> INT_MAX"
      using "1.prems"(2,3) by (simp add: attribute_offset_beyond)
    then show ?thesis
      using False by (subst ActivateAttributes_loop.simps) simp
  next
    case True
    let ?size = "getTypeSize (m_attributes this ! i)"
    let ?ctx1 = "issue (VertexAttribPointer (of_nat i) (c_div ?size 4) GL_FLOAT False
                  (to_int (unat (m_stride this))) location) ctx"
    let ?ctx2 = "issue (EnableVertexAttribArray (of_nat i)) ?ctx1"
    have chk1: "CheckGLError ''Vertex attribute setup'' ?ctx1 = (None, ?ctx1)"
      using "1.prems"(1) by (intro CheckGLError_no_pending) (simp add: error_flags_issue)
    have chk2: "CheckGLError ''Vertex attribute enable'' ?ctx2 = (None, ?ctx2)"
      using "1.prems"(1) by (intro CheckGLError_no_pending) (simp add: error_flags_issue)
    have loc: "location + ?size = attribute_offset (m_attributes this) (i + 1)"
      using "1.prems"(2) True by (simp add: attribute_offset_Suc getTypeSize_fixed)
    show ?thesis
    proof (cases "INT_MAX < location + ?size")
      case overflow: True
      have "location + ?size \<le> layout_size (m_attributes this)"
        unfolding loc by (rule attribute_offset_le)
      then have "\<not> layout_size (m_attributes this) \<le> INT_MAX"
        using overflow by simp
      then show ?thesis
        using True chk1 chk2 overflow
        by (subst ActivateAttributes_loop.simps) (simp add: Let_def)
    next
      case fits: False
      have flags: "error_flags ?ctx2 = []"
        using "1.prems"(1) by (simp add: error_flags_issue)
      have bound: "location + ?size \<le> INT_MAX"
        using fits by simp
      have "fst (ActivateAttributes_loop this (i + 1) (location + ?size) ?ctx2) =
          (if layout_size (m_attributes this) \<le> INT_MAX then None
           else Some (Undefined SignedOverflow))"
        by (rule "1.IH" [OF True refl refl refl chk1 [symmetric] refl refl chk2 [symmetric] refl
              fits flags loc bound])
      then show ?thesis
        using True chk1 chk2 fits
        by (subst ActivateAttributes_loop.simps) (simp add: Let_def)
    qed
  qed
qed

lemma to_int_small: "n < 2 ^ 31 \<Longrightarrow> to_int n = int n"
  by (simp add: to_int_def)

text \<open>
  Claim C3. The byte sizes \<^verbatim>\<open>getTypeSize\<close> computes are the fixed ones: 12 for Position and
  Normal, 16 for Color, 8 for Texture. On a vertex array object whose attribute list is
  empty and whose stride is 0 (as \<^verbatim>\<open>Create\<close> leaves it), after any sequence \<open>ts\<close> of
  \<^verbatim>\<open>AddVertexAttribute\<close> calls the attribute list is \<open>ts\<close> and the stored stride is the sum of
  these fixed sizes over \<open>ts\<close> in the 32-bit unsigned type of the field: the sum itself when
  it is below \<open>2^32\<close>, and the same number as the stride argument of the library call when
  it is below \<open>2^31\<close>. \<^verbatim>\<open>ActivateAttributes\<close> then issues, in order of insertion, the
  registrations of the attributes \<open>0, 1, ...\<close>, attribute \<open>i\<close> with as many components as
  its size holds floats and at the byte offset that is the sum of the fixed sizes of the
  attributes before it, each with the stored stride: an initial part of them whenever it
  stops, and all of them, with the sum of the sizes as the stride, when it returns
  normally. With a non-empty list and no graphics error pending it returns normally when
  the sum of the sizes is below \<open>2^31\<close>; when the sum is larger the \<^verbatim>\<open>int\<close> that accumulates
  the offsets overflows.
\<close>

theorem stride_and_attribute_offsets:
  assumes "m_attributes va = []" and "m_stride va = 0"
  shows
    "getTypeSize Position = 12 \<and> getTypeSize Normal = 12 \<and>
     getTypeSize Color = 16 \<and> getTypeSize Texture = 8 \<and>
     m_attributes (foldl AddVertexAttribute va ts) = ts \<and>
     m_stride (foldl AddVertexAttribute va ts) = to_unsigned (layout_size ts) \<and>
     (layout_size ts < 2 ^ 32 \<longrightarrow>
        uint (m_stride (foldl AddVertexAttribute va ts)) = layout_size ts) \<and>
     (layout_size ts < 2 ^ 31 \<longrightarrow>
        to_int (unat (m_stride (foldl AddVertexAttribute va ts))) = layout_size ts) \<and>
     (\<forall>r w'. ActivateAttributes (foldl AddVertexAttribute va ts) w = (r, w') \<longrightarrow>
        (\<exists>rest. calls (gl w) @
                  registrations (to_int (unat (m_stride (foldl AddVertexAttribute va ts)))) ts =
                calls (gl w') @ rest) \<and>
        (r = None \<longrightarrow>
           layout_size ts < 2 ^ 31 \<and>
           calls (gl w') = calls (gl w) @ registrations (layout_size ts) ts)) \<and>
     (ts \<noteq> [] \<and> error_flags (gl w) = [] \<and> layout_size ts < 2 ^ 31 \<longrightarrow>
        fst (ActivateAttributes (foldl AddVertexAttribute va ts) w) = None) \<and>
     (ts \<noteq> [] \<and> error_flags (gl w) = [] \<and> 2 ^ 31 \<le> layout_size ts \<longrightarrow>
        fst (ActivateAttributes (foldl AddVertexAttribute va ts) w) =
          Some (Undefined SignedOverflow))"
proof -
  let ?va = "foldl AddVertexAttribute va ts"
  let ?s = "to_int (unat (m_stride ?va))"
  have sizes: "getTypeSize Position = 12 \<and> getTypeSize Normal = 12 \<and>
      getTypeSize Color = 16 \<and> getTypeSize Texture = 8"
    by simp
  have attrs: "m_attributes ?va = ts" and stride: "m_stride ?va = to_unsigned (layout_size ts)"
    using foldl_AddVertexAttribute [of va ts] assms by simp_all
  have u: "uint (m_stride ?va) = layout_size ts" if "layout_size ts < 2 ^ 32"
    using that layout_size_nonneg [of ts] by (simp add: stride uint_to_unsigned)
  have g: "?s = layout_size ts" if "layout_size ts < 2 ^ 31"
  proof -
    have "unat (m_stride ?va) = nat (layout_size ts)"
      using that layout_size_nonneg [of ts] by (simp add: stride unat_to_unsigned)
    then show ?thesis
      using that layout_size_nonneg [of ts] by (simp add: to_int_small)
  qed
  have zero: "(0::int) = attribute_offset (m_attributes ?va) 0"
    by (simp add: attribute_offset_def)
  have start: "(0::int) \<le> INT_MAX"
    by (simp add: INT_MAX_def)
  have act: "(\<exists>rest. calls (gl w) @ registrations ?s ts = calls (gl w') @ rest) \<and>
        (r = None \<longrightarrow>
           layout_size ts < 2 ^ 31 \<and>
           calls (gl w') = calls (gl w) @ registrations (layout_size ts) ts)"
    if run: "ActivateAttributes ?va w = (r, w')" for r w'
  proof (cases "ts = []")
    case True
    then have "w' = w" and "r \<noteq> None"
      using run attrs by (auto simp: ActivateAttributes_def)
    then show ?thesis
      using True by (auto simp: registrations_def)
  next
    case False
    obtain r0 ctx' where loop: "ActivateAttributes_loop ?va 0 0 (gl w) = (r0, ctx')"
      by (cases "ActivateAttributes_loop ?va 0 0 (gl w)")
    then have res: "r = r0" "gl w' = ctx'"
      using run False attrs by (auto simp: ActivateAttributes_def)
    note calls = ActivateAttributes_loop_calls [OF zero start loop, unfolded attrs]
    have pre: "\<exists>rest. calls (gl w) @ registrations ?s ts = calls (gl w') @ rest"
      using calls res by (simp add: registrations_def)
    have all: "layout_size ts < 2 ^ 31 \<and>
        calls (gl w') = calls (gl w) @ registrations (layout_size ts) ts" if "r = None"
    proof -
      have fin: "calls (gl w') = calls (gl w) @ registrations ?s ts"
        and small: "layout_size ts \<le> INT_MAX"
        using calls res that by (simp_all add: registrations_def)
      from small have lt: "layout_size ts < 2 ^ 31"
        by (simp add: INT_MAX_def)
      show ?thesis
        using fin lt g [OF lt] by simp
    qed
    show ?thesis
      using pre all by blast
  qed
  have outcome: "fst (ActivateAttributes ?va w) =
      (if layout_size ts \<le> INT_MAX then None else Some (Undefined SignedOverflow))"
    if "ts \<noteq> []" and "error_flags (gl w) = []"
    using that attrs ActivateAttributes_loop_result [OF that(2) zero start]
    by (auto simp: ActivateAttributes_def split: prod.splits)
  have ok: "fst (ActivateAttributes ?va w) = None"
    if "ts \<noteq> [] \<and> error_flags (gl w) = [] \<and> layout_size ts < 2 ^ 31"
    using that outcome by (simp add: INT_MAX_def)
  have over: "fst (ActivateAttributes ?va w) = Some (Undefined SignedOverflow)"
    if "ts \<noteq> [] \<and> error_flags (gl w) = [] \<and> 2 ^ 31 \<le> layout_size ts"
    using that outcome by (simp add: INT_MAX_def)
  show ?thesis
    using sizes attrs stride u g act ok over by blast
qed

lemma registrations_all_kinds:
  "registrations 48 [Position, Color, Normal, Texture] =
     [VertexAttribPointer 0 3 GL_FLOAT False 48 0, EnableVertexAttribArray 0,
      VertexAttribPointer 1 4 GL_FLOAT False 48 12, EnableVertexAttribArray 1,
      VertexAttribPointer 2 3 GL_FLOAT False 48 28, EnableVertexAttribArray 2,
      VertexAttribPointer 3 2 GL_FLOAT False 48 40, EnableVertexAttribArray 3]"
  by (simp add: registrations_def registration_def attribute_offset_def
      upt_rec [of 0] upt_rec [of 1] upt_rec [of 2] upt_rec [of 3])

theorem stride_and_attribute_offsets_witness:
  "m_attributes new_VertexArrayObject = [] \<and> m_stride new_VertexArrayObject = 0 \<and>
   layout_size [Position, Color, Normal, Texture] < 2 ^ 31 \<and>
   [Position, Color, Normal, Texture] \<noteq> [] \<and> error_flags (gl (initial_World [] [])) = [] \<and>
   getTypeSize Position = 12 \<and> getTypeSize Normal = 12 \<and>
   getTypeSize Color = 16 \<and> getTypeSize Texture = 8 \<and>
   uint (m_stride (foldl AddVertexAttribute new_VertexArrayObject
                     [Position, Color, Normal, Texture])) = 48 \<and>
   fst (ActivateAttributes
          (foldl AddVertexAttribute new_VertexArrayObject [Position, Color, Normal, Texture])
          (initial_World [] [])) = None \<and>
   calls (gl (snd (ActivateAttributes
                     (foldl AddVertexAttribute new_VertexArrayObject
                        [Position, Color, Normal, Texture])
                     (initial_World [] [])))) =
     [VertexAttribPointer 0 3 GL_FLOAT False 48 0, EnableVertexAttribArray 0,
      VertexAttribPointer 1 4 GL_FLOAT False 48 12, EnableVertexAttribArray 1,
      VertexAttribPointer 2 3 GL_FLOAT False 48 28, EnableVertexAttribArray 2,
      VertexAttribPointer 3 2 GL_FLOAT False 48 40, EnableVertexAttribArray 3]"
proof -
  let ?ts = "[Position, Color, Normal, Texture]"
  let ?va = "foldl AddVertexAttribute new_VertexArrayObject ?ts"
  let ?w = "initial_World [] []"
  have h1: "m_attributes new_VertexArrayObject = []" and h2: "m_stride new_VertexArrayObject = 0"
    by (simp_all add: new_VertexArrayObject_def)
  have h3: "layout_size ?ts < 2 ^ 31" and h3': "layout_size ?ts < 2 ^ 32"
    and sz: "layout_size ?ts = 48"
    by (simp_all add: layout_size_def)
  have h4: "?ts \<noteq> [] \<and> error_flags (gl ?w) = [] \<and> layout_size ?ts < 2 ^ 31"
    by (simp add: initial_World_def layout_size_def)
  note spec = stride_and_attribute_offsets [OF h1 h2, of ?ts ?w]
  have k1: "getTypeSize Position = 12"
    using spec [THEN conjunct1] .
  have k2: "getTypeSize Normal = 12"
    using spec [THEN conjunct2, THEN conjunct1] .
  have k3: "getTypeSize Color = 16"
    using spec [THEN conjunct2, THEN conjunct2, THEN conjunct1] .
  have k4: "getTypeSize Texture = 8"
    using spec [THEN conjunct2, THEN conjunct2, THEN conjunct2, THEN conjunct1] .
  note rest = spec [THEN conjunct2, THEN conjunct2, THEN conjunct2, THEN conjunct2]
  have "uint (m_stride ?va) = layout_size ?ts"
    using rest [THEN conjunct2, THEN conjunct2, THEN conjunct1, rule_format, OF h3'] .
  then have s: "uint (m_stride ?va) = 48"
    by (simp only: sz)
  have ok: "fst (ActivateAttributes ?va ?w) = None"
    using rest [THEN conjunct2, THEN conjunct2, THEN conjunct2, THEN conjunct2, THEN conjunct2,
        THEN conjunct1, rule_format, OF h4] .
  obtain w' where run: "ActivateAttributes ?va ?w = (None, w')"
    using ok by (cases "ActivateAttributes ?va ?w") auto
  have c0: "calls (gl w') = calls (gl ?w) @ registrations (layout_size ?ts) ?ts"
    using rest [THEN conjunct2, THEN conjunct2, THEN conjunct2, THEN conjunct2, THEN conjunct1,
        rule_format, OF run, THEN conjunct2, rule_format, OF refl, THEN conjunct2] .
  have e: "calls (gl ?w) = []"
    by (simp add: initial_World_def)
  have c: "calls (gl (snd (ActivateAttributes ?va ?w))) =
     [VertexAttribPointer 0 3 GL_FLOAT False 48 0, EnableVertexAttribArray 0,
      VertexAttribPointer 1 4 GL_FLOAT False 48 12, EnableVertexAttribArray 1,
      VertexAttribPointer 2 3 GL_FLOAT False 48 28, EnableVertexAttribArray 2,
      VertexAttribPointer 3 2 GL_FLOAT False 48 40, EnableVertexAttribArray 3]"
    by (simp only: run snd_conv c0 e sz registrations_all_kinds append_Nil)
  show ?thesis
    using h1 h2 h3 h4 k1 k2 k3 k4 s ok c by (intro conjI) simp_all
qed

section \<open>Drawing\<close>

lemma IndexBuffer_Create_count:
  assumes "on_indexBuffer a (\<lambda>this. IndexBuffer_Create this data size') w = (None, w1)"
  shows "m_IndexCount (indexBuffers w1 a) = c_div size' 4 \<and> 0 < size' \<and> data \<noteq> None"
  using assms
  by (auto simp: on_indexBuffer_def IndexBuffer_Create_def Let_def
      split: prod.splits if_splits option.splits)

lemma SetIndexBuffer_returns:
  assumes "SetIndexBuffer va (Some a) w1 = (None, va2, w2)"
  shows "mp_ib va2 = Some a \<and> indexBuffers w2 = indexBuffers w1"
  using assms
  by (auto simp: SetIndexBuffer_def unbind_and_rethrow_def VertexArrayObject_Bind_def Let_def
      split: prod.splits if_splits option.splits failure.splits)

lemma Draw_calls:
  assumes "mp_ib va = Some a"
  shows "calls (gl (snd (Draw va w))) =
           calls (gl w) @ [DrawElements GL_TRIANGLES (getIndexCount (indexBuffers w a)) GL_UNSIGNED_INT 0]"
  using assms calls_CheckGLError [of "''Draw call''"
      "issue (DrawElements GL_TRIANGLES (getIndexCount (indexBuffers w a)) GL_UNSIGNED_INT 0) (gl w)"]
  by (auto simp: Draw_def Let_def calls_issue split: prod.splits)

text \<open>
  Claim C6. \<^verbatim>\<open>Draw\<close> fails with the invalid-state \<^verbatim>\<open>BufferException\<close>, issuing nothing,
  whenever no index buffer has been set. After \<^verbatim>\<open>Create(data, size)\<close> has returned
  normally on the index buffer at address \<open>a\<close> and \<^verbatim>\<open>SetIndexBuffer\<close> has returned
  normally with that buffer, \<^verbatim>\<open>Draw\<close> issues exactly one command: a draw of triangles with
  \<open>size / 4\<close> (truncated) indices of type unsigned int, starting at offset 0. Whatever
  happens between the three calls may change the world, as long as it leaves that index
  buffer object and the pointer the vertex array object holds to it alone.
\<close>

theorem Draw_needs_index_buffer:
  "(mp_ib va = None \<longrightarrow>
      Draw va w = (Some (Exception (BufferException ''No index buffer bound for drawing'')), w)) \<and>
   (\<forall>w1 w1' va2 w2 va3 w3.
      on_indexBuffer a (\<lambda>this. IndexBuffer_Create this data size') w = (None, w1) \<and>
      indexBuffers w1' a = indexBuffers w1 a \<and>
      SetIndexBuffer va (Some a) w1' = (None, va2, w2) \<and>
      indexBuffers w3 a = indexBuffers w2 a \<and> mp_ib va3 = mp_ib va2 \<longrightarrow>
      calls (gl (snd (Draw va3 w3))) =
        calls (gl w3) @ [DrawElements GL_TRIANGLES (c_div size' 4) GL_UNSIGNED_INT 0] \<and>
      c_div size' 4 = size' div 4)"
proof (intro conjI allI impI)
  assume "mp_ib va = None"
  then show "Draw va w = (Some (Exception (BufferException ''No index buffer bound for drawing'')), w)"
    by (simp add: Draw_def)
next
  fix w1 w1' w2 w3 :: World and va2 va3 :: VertexArrayObject
  assume a: "on_indexBuffer a (\<lambda>this. IndexBuffer_Create this data size') w = (None, w1) \<and>
      indexBuffers w1' a = indexBuffers w1 a \<and>
      SetIndexBuffer va (Some a) w1' = (None, va2, w2) \<and>
      indexBuffers w3 a = indexBuffers w2 a \<and> mp_ib va3 = mp_ib va2"
  then have cnt: "m_IndexCount (indexBuffers w1 a) = c_div size' 4" and pos: "0 < size'"
    using IndexBuffer_Create_count [of a data size' w w1] by simp_all
  from a have ib: "mp_ib va2 = Some a" and same: "indexBuffers w2 = indexBuffers w1'"
    using SetIndexBuffer_returns [of va a w1' va2 w2] by simp_all
  from a ib have ib3: "mp_ib va3 = Some a"
    by simp
  from a same cnt have "m_IndexCount (indexBuffers w3 a) = c_div size' 4"
    by simp
  then show "calls (gl (snd (Draw va3 w3))) =
        calls (gl w3) @ [DrawElements GL_TRIANGLES (c_div size' 4) GL_UNSIGNED_INT 0]"
    using Draw_calls [OF ib3, of w3] by (simp add: getIndexCount_def)
  show "c_div size' 4 = size' div 4"
    using pos by (simp add: c_div_def)
qed

theorem Draw_needs_index_buffer_witness:
  "mp_ib new_VertexArrayObject = None \<and>
   Draw new_VertexArrayObject (initial_World [5] []) =
     (Some (Exception (BufferException ''No index buffer bound for drawing'')),
      initial_World [5] []) \<and>
   (\<exists>w1 va2 w2.
      on_indexBuffer 0 (\<lambda>this. IndexBuffer_Create this (Some (IndexData [0, 1, 2])) 12)
        (initial_World [5] []) = (None, w1) \<and>
      SetIndexBuffer new_VertexArrayObject (Some 0) w1 = (None, va2, w2) \<and>
      calls (gl (snd (Draw va2 w2))) =
        calls (gl w2) @ [DrawElements GL_TRIANGLES 3 GL_UNSIGNED_INT 0])"
proof -
  let ?w = "initial_World [5] []"
  let ?create = "on_indexBuffer 0 (\<lambda>this. IndexBuffer_Create this (Some (IndexData [0, 1, 2])) 12) ?w"
  note spec = Draw_needs_index_buffer [of new_VertexArrayObject ?w 0 "Some (IndexData [0, 1, 2])" 12]
  have none: "mp_ib new_VertexArrayObject = None"
    by (simp add: new_VertexArrayObject_def)
  have first: "Draw new_VertexArrayObject ?w =
     (Some (Exception (BufferException ''No index buffer bound for drawing'')), ?w)"
    using spec [THEN conjunct1, rule_format, OF none] .
  have "fst ?create = None"
    by (simp add: on_indexBuffer_def IndexBuffer_Create_def initial_World_def glGen_def
        CheckGLError_def glGetError_def issue_def new_IndexBuffer_def Let_def)
  then obtain w1 where c: "?create = (None, w1)"
    by (cases ?create) auto
  have e: "error_flags (gl w1) = []"
    using c
    by (auto simp: on_indexBuffer_def IndexBuffer_Create_def initial_World_def glGen_def
        CheckGLError_def glGetError_def issue_def new_IndexBuffer_def Let_def)
  have "fst (SetIndexBuffer new_VertexArrayObject (Some 0) w1) = None"
    using e
    by (simp add: SetIndexBuffer_def VertexArrayObject_Bind_def IndexBuffer_Bind_def
        CheckGLError_no_pending error_flags_issue unbind_and_rethrow_def Let_def)
  then obtain va2 w2 where s: "SetIndexBuffer new_VertexArrayObject (Some 0) w1 = (None, va2, w2)"
    by (cases "SetIndexBuffer new_VertexArrayObject (Some 0) w1") auto
  have hyp: "?create = (None, w1) \<and> indexBuffers w1 0 = indexBuffers w1 0 \<and>
      SetIndexBuffer new_VertexArrayObject (Some 0) w1 = (None, va2, w2) \<and>
      indexBuffers w2 0 = indexBuffers w2 0 \<and> mp_ib va2 = mp_ib va2"
    using c s by simp
  have "calls (gl (snd (Draw va2 w2))) =
        calls (gl w2) @ [DrawElements GL_TRIANGLES (c_div 12 4) GL_UNSIGNED_INT 0]"
    using spec [THEN conjunct2, rule_format, OF hyp, THEN conjunct1] .
  then have "calls (gl (snd (Draw va2 w2))) =
        calls (gl w2) @ [DrawElements GL_TRIANGLES 3 GL_UNSIGNED_INT 0]"
    by (simp add: c_div_def)
  with none first c s show ?thesis
    by blast
qed

section \<open>The shape cache of the manager\<close>

lemma on_vertexBuffer_invocations:
  "factory_invocations (snd (on_vertexBuffer a method w)) = factory_invocations w"
  by (simp add: on_vertexBuffer_def split: prod.splits)

lemma on_indexBuffer_invocations:
  "factory_invocations (snd (on_indexBuffer a method w)) = factory_invocations w"
  by (simp add: on_indexBuffer_def split: prod.splits)

lemma VertexArrayObject_Unbind_invocations:
  "factory_invocations (snd (VertexArrayObject_Unbind this w)) = factory_invocations w"
  by (simp add: VertexArrayObject_Unbind_def Let_def split: option.splits)

lemma unbind_and_rethrow_invocations:
  "factory_invocations (snd (snd (unbind_and_rethrow context r this w))) = factory_invocations w"
  using VertexArrayObject_Unbind_invocations [of this w]
  by (auto simp: unbind_and_rethrow_def split: option.splits failure.splits prod.splits)

lemma VertexArrayObject_Create_invocations:
  "factory_invocations (snd (snd (VertexArrayObject_Create this w))) = factory_invocations w"
  by (auto simp: VertexArrayObject_Create_def Let_def split: prod.splits option.splits)

lemma SetVertexBuffer_invocations:
  "factory_invocations (snd (snd (SetVertexBuffer this p w))) = factory_invocations w"
  by (cases p)
     (auto simp: SetVertexBuffer_def Let_def VertexArrayObject_Bind_def
        unbind_and_rethrow_invocations split: prod.splits)

lemma SetIndexBuffer_invocations:
  "factory_invocations (snd (snd (SetIndexBuffer this p w))) = factory_invocations w"
  by (cases p)
     (auto simp: SetIndexBuffer_def Let_def VertexArrayObject_Bind_def
        unbind_and_rethrow_invocations split: prod.splits)

lemma ActivateAttributes_invocations:
  "factory_invocations (snd (ActivateAttributes this w)) = factory_invocations w"
  by (simp add: ActivateAttributes_def split: prod.splits)

lemma vao_then_invocations:
  assumes "factory_invocations (snd (snd r)) = n"
    and "\<And>this w. factory_invocations (snd (snd (method this w))) = factory_invocations w"
  shows "factory_invocations (snd (snd (vao_then r method))) = n"
  using assms by (cases r) (auto simp: vao_then_def split: option.splits)

lemma setup_VAO_invocations:
  "factory_invocations (snd (snd (setup_VAO this p_vb p_ib w))) = factory_invocations w"
  unfolding setup_VAO_def
proof (intro vao_then_invocations VertexArrayObject_Create_invocations
        SetVertexBuffer_invocations SetIndexBuffer_invocations)
  fix this :: VertexArrayObject and w :: World
  show "factory_invocations (snd (snd (None :: failure option, AddVertexAttribute this Position, w))) =
      factory_invocations w"
    by simp
  show "factory_invocations (snd (snd (None :: failure option, AddVertexAttribute this Texture, w))) =
      factory_invocations w"
    by simp
  show "factory_invocations (snd (snd (case ActivateAttributes this w of (r, w) \<Rightarrow> (r, this, w)))) =
      factory_invocations w"
    using ActivateAttributes_invocations [of this w]
    by (cases "ActivateAttributes this w") simp
  show "factory_invocations (snd (snd (case VertexArrayObject_Unbind this w of
            (r, w) \<Rightarrow> (r, this, w)))) = factory_invocations w"
    using VertexArrayObject_Unbind_invocations [of this w]
    by (cases "VertexArrayObject_Unbind this w") simp
qed

lemma invocations_unchanged:
  "on_vertexBuffer a vmethod w = (r, w') \<Longrightarrow> factory_invocations w' = factory_invocations w"
  "on_indexBuffer a imethod w = (r, w') \<Longrightarrow> factory_invocations w' = factory_invocations w"
  "setup_VAO this p_vb p_ib w = (r, this', w') \<Longrightarrow> factory_invocations w' = factory_invocations w"
  using on_vertexBuffer_invocations [of a vmethod w] on_indexBuffer_invocations [of a imethod w]
    setup_VAO_invocations [of this p_vb p_ib w]
  by simp_all

lemma createVAOFromData_invocations:
  "factory_invocations (snd (createVAOFromData vertices indices w)) = factory_invocations w"
  unfolding createVAOFromData_def Let_def
  by (auto split: prod.splits option.splits failure.splits dest!: invocations_unchanged)

lemma ShapeFactory_createShape_invocations:
  "factory_invocations (snd (ShapeFactory_createShape F factory w)) = factory_invocations w"
  by (simp add: ShapeFactory_createShape_def createVAOFromData_invocations
      split: sum.splits prod.splits)

text \<open>A factory that returns a drawable returns the address it allocated first: never null.\<close>

lemma createVAOFromData_pointer:
  "createVAOFromData vertices indices w = (Inr shape, w') \<Longrightarrow> shape = Some (heap_next w)"
  unfolding createVAOFromData_def Let_def
  by (auto split: if_splits prod.splits option.splits failure.splits)

lemma ShapeFactory_createShape_pointer:
  "ShapeFactory_createShape F factory w = (Inr shape, w') \<Longrightarrow> shape = Some (heap_next w)"
  by (auto simp: ShapeFactory_createShape_def split: sum.splits prod.splits
      dest: createVAOFromData_pointer)

lemma createShape_hit:
  "shapeCache this shapeType = Some cached \<Longrightarrow>
   createShape F this shapeType w = (Inr cached, this, w)"
  by (simp add: createShape_def)

lemma createShape_miss:
  assumes "shapeCache this shapeType = None" and "factories this shapeType = Some factory"
    and "createShape F this shapeType w = (r, this', w')"
  shows "(r, w') = ShapeFactory_createShape F factory
                     (w\<lparr>factory_invocations := Suc (factory_invocations w)\<rparr>) \<and>
         factory_invocations w' = factory_invocations w + 1 \<and>
         (case r of
            Inl f \<Rightarrow> this' = this
          | Inr shape \<Rightarrow>
              shape = Some (heap_next w) \<and>
              this' = this\<lparr>shapeCache := (shapeCache this)(shapeType \<mapsto> shape)\<rparr>)"
proof -
  let ?w = "w\<lparr>factory_invocations := Suc (factory_invocations w)\<rparr>"
  obtain r1 w1 where run: "ShapeFactory_createShape F factory ?w = (r1, w1)"
    by (cases "ShapeFactory_createShape F factory ?w")
  have inv: "factory_invocations w1 = Suc (factory_invocations w)"
    using ShapeFactory_createShape_invocations [of F factory ?w] run by simp
  have res: "r = r1 \<and> w' = w1 \<and>
      (case r1 of
         Inl f \<Rightarrow> this' = this
       | Inr shape \<Rightarrow> this' = this\<lparr>shapeCache := (shapeCache this)(shapeType \<mapsto> shape)\<rparr>)"
    using assms run by (cases r1) (auto simp: createShape_def)
  have ptr: "shape = Some (heap_next w)" if "r1 = Inr shape" for shape
    using ShapeFactory_createShape_pointer [of F factory ?w shape w1] run that by simp
  show ?thesis
    using res inv ptr run by (cases r1) simp_all
qed

lemma createShape_cached:
  assumes "createShape F this shapeType w = (Inr shape, this', w')"
  shows "shapeCache this' shapeType = Some shape \<and>
         createShape F this' shapeType w' = (Inr shape, this', w') \<and>
         factory_invocations w' \<le> factory_invocations w + 1 \<and>
         (cache_nonnull this \<longrightarrow> shape \<noteq> None \<and> cache_nonnull this')"
proof (cases "shapeCache this shapeType")
  case (Some cached)
  with assms have "shape = cached" and "this' = this" and "w' = w"
    by (simp_all add: createShape_def)
  moreover have "cached \<noteq> None" if "cache_nonnull this"
    using that Some unfolding cache_nonnull_def by metis
  ultimately show ?thesis
    using Some by (simp add: createShape_def)
next
  case None
  show ?thesis
  proof (cases "factories this shapeType")
    case None': None
    with None assms show ?thesis
      by (simp add: createShape_def)
  next
    case (Some factory)
    note miss = createShape_miss [OF None Some assms]
    have inv: "factory_invocations w' = factory_invocations w + 1"
      using miss by simp
    have ptr: "shape = Some (heap_next w)"
      and this': "this' = this\<lparr>shapeCache := (shapeCache this)(shapeType \<mapsto> shape)\<rparr>"
      using miss by simp_all
    have "cache_nonnull this'" if "cache_nonnull this"
      using that by (simp add: cache_nonnull_def this' ptr)
    then show ?thesis
      using inv ptr by (simp add: createShape_def this')
  qed
qed

lemma createShape_preserves_nonnull:
  assumes "cache_nonnull this"
  shows "cache_nonnull (fst (snd (createShape F this shapeType w)))"
proof -
  obtain r this' w' where run: "createShape F this shapeType w = (r, this', w')"
    by (cases "createShape F this shapeType w")
  have "cache_nonnull this'"
  proof (cases r)
    case (Inl f)
    then have "this' = this"
      using run by (auto simp: createShape_def split: option.splits prod.splits sum.splits)
    then show ?thesis
      using assms by simp
  next
    case (Inr shape)
    then show ?thesis
      using createShape_cached [of F this shapeType w shape this' w'] run assms by simp
  qed
  then show ?thesis
    by (simp add: run)
qed

lemma createShape_unregistered:
  assumes "manager_inv this" and "factories this shapeType = None"
  shows "createShape F this shapeType w = (Inl UNKNOWN_SHAPE, this, w)"
proof -
  have "shapeCache this shapeType = None"
    using assms by (auto simp: manager_inv_def)
  with assms(2) show ?thesis
    by (simp add: createShape_def)
qed

lemma createShape_preserves_inv:
  assumes "manager_inv this"
  shows "manager_inv (fst (snd (createShape F this shapeType w)))"
  using assms
  by (auto simp: createShape_def manager_inv_def split: option.splits prod.splits sum.splits)

lemma registered_kinds:
  "factories new_ShapeFactoryManager shapeType \<noteq> None \<longleftrightarrow>
     shapeType \<in> {Square, Circle, Cube, Pyramid, Frustum}"
  by (auto simp: new_ShapeFactoryManager_def Square_def Circle_def Cube_def Pyramid_def Frustum_def)

lemma square_data:
  "\<exists>vertices. SquareFactory_geometry = Inr (vertices, [0, 1, 2, 3, 4, 5]) \<and> length vertices = 6"
  by (simp add: SquareFactory_geometry_def Let_def put_position_def put_texture_def)

lemma createVAOFromData_happy:
  assumes "length vertices = 6" and "length indices = 6"
  shows "fst (createVAOFromData vertices indices
                ((initial_World [1, 2, 3] [])\<lparr>factory_invocations := n\<rparr>)) = Inr (Some 0)"
proof -
  have ne: "vertices \<noteq> []" "indices \<noteq> []"
    using assms by auto
  show ?thesis
    using ne assms
    by (simp add: createVAOFromData_def initial_World_def Let_def
        on_vertexBuffer_def on_indexBuffer_def VertexBuffer_Create_def IndexBuffer_Create_def
        glGen_def issue_def CheckGLError_def glGetError_def
        new_VertexBuffer_def new_IndexBuffer_def new_VertexArrayObject_def
        sizeof_Vertex_def sizeof_unsigned_int_def to_int_def c_div_def
        setup_VAO_def vao_then_def VertexArrayObject_Create_def SetVertexBuffer_def
        SetIndexBuffer_def VertexArrayObject_Bind_def VertexBuffer_Bind_def IndexBuffer_Bind_def
        unbind_and_rethrow_def AddVertexAttribute_def ActivateAttributes_def
        ActivateAttributes_loop.simps INT_MAX_def VertexArrayObject_Unbind_def IndexBuffer_Unbind_def
        VertexBuffer_Unbind_def to_unsigned_def)
qed

text \<open>
  Claim C5. A call of \<^verbatim>\<open>createShape\<close> with a kind that is cached returns the cached
  pointer and changes nothing. A call with a kind that is not cached and has a registered
  factory invokes that factory exactly once: its outcome is the outcome of the factory,
  and when the factory returns a drawable, the pointer returned is the non-null pointer to
  the vertex array object the factory allocated and the only change to the manager is
  that the cache maps the kind to this pointer; when the factory throws, the manager is
  unchanged. Hence whenever a call with some kind returns a drawable, the cache holds it
  for that kind, the next call with that kind returns the identical shared pointer and
  changes neither the manager nor the world: it does not invoke the factory, so over the
  two calls the factory runs at most once. The cache never holds a null pointer (the
  constructor establishes this and \<^verbatim>\<open>createShape\<close> preserves it), and then no call returns
  one. For a kind without a registered factory, in every manager state in which each
  cached kind has a factory (the constructor establishes this and \<^verbatim>\<open>createShape\<close>
  preserves it), \<^verbatim>\<open>createShape\<close> fails with the unknown-shape exception and leaves the
  cache, like the whole manager and the world, unchanged. The constructor registers a
  factory for exactly the five named kinds.
\<close>

theorem createShape_caches:
  "(\<forall>cached. shapeCache this shapeType = Some cached \<longrightarrow>
      createShape F this shapeType w = (Inr cached, this, w)) \<and>
   (\<forall>factory r this' w'.
      shapeCache this shapeType = None \<and> factories this shapeType = Some factory \<and>
      createShape F this shapeType w = (r, this', w') \<longrightarrow>
      (r, w') = ShapeFactory_createShape F factory
                  (w\<lparr>factory_invocations := Suc (factory_invocations w)\<rparr>) \<and>
      factory_invocations w' = factory_invocations w + 1 \<and>
      (case r of
         Inl f \<Rightarrow> this' = this
       | Inr shape \<Rightarrow>
           shape = Some (heap_next w) \<and>
           this' = this\<lparr>shapeCache := (shapeCache this)(shapeType \<mapsto> shape)\<rparr>)) \<and>
   (\<forall>shape this' w'.
      createShape F this shapeType w = (Inr shape, this', w') \<longrightarrow>
      shapeCache this' shapeType = Some shape \<and>
      createShape F this' shapeType w' = (Inr shape, this', w') \<and>
      factory_invocations w' \<le> factory_invocations w + 1 \<and>
      (cache_nonnull this \<longrightarrow> shape \<noteq> None \<and> cache_nonnull this')) \<and>
   cache_nonnull new_ShapeFactoryManager \<and>
   (cache_nonnull this \<longrightarrow> cache_nonnull (fst (snd (createShape F this shapeType w)))) \<and>
   (manager_inv this \<and> factories this shapeType = None \<longrightarrow>
      createShape F this shapeType w = (Inl UNKNOWN_SHAPE, this, w)) \<and>
   manager_inv new_ShapeFactoryManager \<and>
   (manager_inv this \<longrightarrow> manager_inv (fst (snd (createShape F this shapeType w)))) \<and>
   (factories new_ShapeFactoryManager shapeType \<noteq> None \<longleftrightarrow>
      shapeType \<in> {Square, Circle, Cube, Pyramid, Frustum})"
proof -
  have hit: "\<forall>cached. shapeCache this shapeType = Some cached \<longrightarrow>
      createShape F this shapeType w = (Inr cached, this, w)"
    by (simp add: createShape_hit)
  have miss: "\<forall>factory r this' w'.
      shapeCache this shapeType = None \<and> factories this shapeType = Some factory \<and>
      createShape F this shapeType w = (r, this', w') \<longrightarrow>
      (r, w') = ShapeFactory_createShape F factory
                  (w\<lparr>factory_invocations := Suc (factory_invocations w)\<rparr>) \<and>
      factory_invocations w' = factory_invocations w + 1 \<and>
      (case r of
         Inl f \<Rightarrow> this' = this
       | Inr shape \<Rightarrow>
           shape = Some (heap_next w) \<and>
           this' = this\<lparr>shapeCache := (shapeCache this)(shapeType \<mapsto> shape)\<rparr>)"
  proof (intro allI impI)
    fix factory r and this' :: ShapeFactoryManager and w' :: World
    assume a: "shapeCache this shapeType = None \<and> factories this shapeType = Some factory \<and>
      createShape F this shapeType w = (r, this', w')"
    show "(r, w') = ShapeFactory_createShape F factory
                  (w\<lparr>factory_invocations := Suc (factory_invocations w)\<rparr>) \<and>
      factory_invocations w' = factory_invocations w + 1 \<and>
      (case r of
         Inl f \<Rightarrow> this' = this
       | Inr shape \<Rightarrow>
           shape = Some (heap_next w) \<and>
           this' = this\<lparr>shapeCache := (shapeCache this)(shapeType \<mapsto> shape)\<rparr>)"
      by (rule createShape_miss [OF a [THEN conjunct1] a [THEN conjunct2, THEN conjunct1]
            a [THEN conjunct2, THEN conjunct2]])
  qed
  have twice: "\<forall>shape this' w'.
      createShape F this shapeType w = (Inr shape, this', w') \<longrightarrow>
      shapeCache this' shapeType = Some shape \<and>
      createShape F this' shapeType w' = (Inr shape, this', w') \<and>
      factory_invocations w' \<le> factory_invocations w + 1 \<and>
      (cache_nonnull this \<longrightarrow> shape \<noteq> None \<and> cache_nonnull this')"
    by (intro allI impI) (rule createShape_cached)
  have nn0: "cache_nonnull new_ShapeFactoryManager"
    by (simp add: cache_nonnull_def new_ShapeFactoryManager_def)
  have nn: "cache_nonnull this \<longrightarrow> cache_nonnull (fst (snd (createShape F this shapeType w)))"
    by (simp add: createShape_preserves_nonnull)
  have unknown: "manager_inv this \<and> factories this shapeType = None \<longrightarrow>
      createShape F this shapeType w = (Inl UNKNOWN_SHAPE, this, w)"
    by (simp add: createShape_unregistered)
  have inv0: "manager_inv new_ShapeFactoryManager"
    by (simp add: manager_inv_def new_ShapeFactoryManager_def)
  have inv: "manager_inv this \<longrightarrow> manager_inv (fst (snd (createShape F this shapeType w)))"
    by (simp add: createShape_preserves_inv)
  show ?thesis
    using hit miss twice nn0 nn unknown inv0 inv registered_kinds [of shapeType]
    by (intro conjI) assumption+
qed

theorem createShape_caches_witness:
  "shapeCache new_ShapeFactoryManager Square = None \<and>
   factories new_ShapeFactoryManager Square = Some SquareFactory \<and>
   cache_nonnull new_ShapeFactoryManager \<and>
   fst (createShape exact_fpu new_ShapeFactoryManager Square (initial_World [1, 2, 3] [])) =
     Inr (Some 0) \<and>
   shapeCache (fst (snd (createShape exact_fpu new_ShapeFactoryManager Square
                           (initial_World [1, 2, 3] [])))) Square = Some (Some 0) \<and>
   factory_invocations (snd (snd (createShape exact_fpu new_ShapeFactoryManager Square
                                    (initial_World [1, 2, 3] [])))) = 1 \<and>
   createShape exact_fpu
     (fst (snd (createShape exact_fpu new_ShapeFactoryManager Square (initial_World [1, 2, 3] []))))
     Square
     (snd (snd (createShape exact_fpu new_ShapeFactoryManager Square (initial_World [1, 2, 3] [])))) =
     createShape exact_fpu new_ShapeFactoryManager Square (initial_World [1, 2, 3] []) \<and>
   manager_inv new_ShapeFactoryManager \<and>
   factories new_ShapeFactoryManager (ShapeTypes 7) = None \<and>
   createShape exact_fpu new_ShapeFactoryManager (ShapeTypes 7) (initial_World [] []) =
     (Inl UNKNOWN_SHAPE, new_ShapeFactoryManager, initial_World [] [])"
proof -
  let ?w = "initial_World [1, 2, 3] []"
  let ?run = "createShape exact_fpu new_ShapeFactoryManager Square ?w"
  note spec = createShape_caches [of new_ShapeFactoryManager _ exact_fpu]
  obtain vertices where geo: "SquareFactory_geometry = Inr (vertices, [0, 1, 2, 3, 4, 5])"
    and len: "length vertices = 6"
    using square_data by blast
  have cache: "shapeCache new_ShapeFactoryManager Square = None"
    and fac: "factories new_ShapeFactoryManager Square = Some SquareFactory"
    by (simp_all add: new_ShapeFactoryManager_def Square_def Circle_def Cube_def Pyramid_def
        Frustum_def)
  have "fst (createVAOFromData vertices [0, 1, 2, 3, 4, 5]
          (?w\<lparr>factory_invocations := Suc (factory_invocations ?w)\<rparr>)) = Inr (Some 0)"
    using len by (intro createVAOFromData_happy) simp_all
  then have first: "fst ?run = Inr (Some 0)"
    by (auto simp: createShape_def cache fac ShapeFactory_createShape_def geo split: prod.splits)
  then obtain this' w' where run: "?run = (Inr (Some 0), this', w')"
    by (cases ?run) auto
  have zero: "factory_invocations ?w = 0"
    by (simp add: initial_World_def)
  have "factory_invocations w' = factory_invocations ?w + 1"
    using spec [of Square ?w, THEN conjunct2, THEN conjunct1, rule_format,
        OF conjI [OF cache conjI [OF fac run]], THEN conjunct2, THEN conjunct1] .
  then have once: "factory_invocations (snd (snd ?run)) = 1"
    by (simp only: run snd_conv zero)
  note twice = spec [of Square ?w, THEN conjunct2, THEN conjunct2, THEN conjunct1, rule_format,
      OF run]
  have cached: "shapeCache (fst (snd ?run)) Square = Some (Some 0)"
    using twice [THEN conjunct1] by (simp only: run fst_conv snd_conv)
  have again: "createShape exact_fpu (fst (snd ?run)) Square (snd (snd ?run)) = ?run"
    using twice [THEN conjunct2, THEN conjunct1] by (simp only: run fst_conv snd_conv)
  note tail = spec [of "ShapeTypes 7" "initial_World [] []", THEN conjunct2, THEN conjunct2,
      THEN conjunct2]
  have nn: "cache_nonnull new_ShapeFactoryManager"
    using tail [THEN conjunct1] .
  have inv: "manager_inv new_ShapeFactoryManager"
    using tail [THEN conjunct2, THEN conjunct2, THEN conjunct2, THEN conjunct1] .
  have none: "factories new_ShapeFactoryManager (ShapeTypes 7) = None"
    by (simp add: new_ShapeFactoryManager_def Square_def Circle_def Cube_def Pyramid_def
        Frustum_def)
  have unknown: "createShape exact_fpu new_ShapeFactoryManager (ShapeTypes 7) (initial_World [] []) =
     (Inl UNKNOWN_SHAPE, new_ShapeFactoryManager, initial_World [] [])"
    using tail [THEN conjunct2, THEN conjunct2, THEN conjunct1, rule_format,
        OF conjI [OF inv none]] .
  show ?thesis
    using cache fac nn first cached once again inv none unknown
    by (intro conjI) assumption+
qed

end
